theory Spec2Isabelle
  imports Complex_Main
begin

section \<open>Averaged summaries and their weighted combination\<close>

text \<open>
  The chapters hand every numerical step to the MNE-Python library; the notebooks
  only choose the arguments. An averaged summary (an \<open>Evoked\<close>) is a
  channels \<times> timepoints array. The samples are modelled as real numbers, so the
  arithmetic below is exact.
\<close>

type_synonym matrix = "real list list"

datatype error = ValueError | TypeError | IndexError | NameError | LibraryError string

definition shape_ok :: "nat \<Rightarrow> nat \<Rightarrow> matrix \<Rightarrow> bool" where
  "shape_ok nc nt m \<longleftrightarrow> map length m = replicate nc nt"

definition same_shape :: "matrix \<Rightarrow> matrix \<Rightarrow> bool" where
  "same_shape a b \<longleftrightarrow> map length a = map length b"

definition scale :: "real \<Rightarrow> matrix \<Rightarrow> matrix" where
  "scale w m = map (map (\<lambda>x. w * x)) m"

definition madd :: "matrix \<Rightarrow> matrix \<Rightarrow> matrix" where
  "madd a b = map2 (map2 (+)) a b"

text \<open>
  The sum of a non-empty list of arrays, taken from left to right. The sum of no array
  is not an array; the empty case is never reached from \<open>combine_evoked\<close>.
\<close>

fun msum :: "matrix list \<Rightarrow> matrix" where
  "msum [] = []"
| "msum (m # ms) = foldl madd m ms"

text \<open>The \<open>weights\<close> argument the notebooks pass: the word \<open>'equal'\<close> or a list of numbers.\<close>

datatype weights = Equal | Weights "real list"

definition resolve_weights :: "weights \<Rightarrow> nat \<Rightarrow> real list" where
  "resolve_weights w n = (case w of Equal \<Rightarrow> replicate n (1 / real n) | Weights ws \<Rightarrow> ws)"

text \<open>
  Modelled from the spec: \<open>combine_evoked\<close> is a routine of the MNE-Python library; the
  repository holds only the calls \<open>combine_evoked(evoked_list, weights=[1, -1])\<close> and
  \<open>combine_evoked(evokeds, weights='equal')\<close>, not the routine's body. The spec
  describes it as the "weighted combination" of averaged summaries under "arithmetic
  combination weights (for difference waves and grand averages)": the result is the
  sum of the summaries, each multiplied by its weight, and equal weights are \<open>1/N\<close>
  each. A list of weights of the wrong length, an empty list of summaries and
  summaries of different shapes are refused.
\<close>

definition combine_evoked :: "matrix list \<Rightarrow> weights \<Rightarrow> error + matrix" where
  "combine_evoked all_evoked weights =
     (let ws = resolve_weights weights (length all_evoked) in
      if all_evoked = [] then Inl ValueError
      else if length ws \<noteq> length all_evoked then Inl ValueError
      else if \<not> list_all (same_shape (hd all_evoked)) all_evoked then Inl ValueError
      else Inr (msum (map2 scale ws all_evoked)))"

section \<open>Baseline correction\<close>

text \<open>
  The epoching chapter corrects the baseline of the epochs with
  \<open>epochs.apply_baseline((-0.2, 0.0))\<close>. Epochs are a windows \<times> channels \<times> timepoints
  array together with the time of every sample relative to the event; in a well-shaped
  array every channel of every window has one value per sample time.
\<close>

record epochs =
  sample_times :: "real list"
  windows :: "matrix list"

definition well_shaped :: "epochs \<Rightarrow> bool" where
  "well_shaped eps \<longleftrightarrow>
     list_all (list_all (\<lambda>row. length row = length (sample_times eps))) (windows eps)"

text \<open>The sample times of the baseline: those within the interval, ends included.\<close>

definition in_baseline :: "real \<times> real \<Rightarrow> real \<Rightarrow> bool" where
  "in_baseline baseline t \<longleftrightarrow> fst baseline \<le> t \<and> t \<le> snd baseline"

definition baseline_samples :: "real \<times> real \<Rightarrow> real list \<Rightarrow> real list \<Rightarrow> real list" where
  "baseline_samples baseline ts row =
     map snd (filter (\<lambda>p. in_baseline baseline (fst p)) (zip ts row))"

definition mean :: "real list \<Rightarrow> real" where
  "mean xs = sum_list xs / real (length xs)"

text \<open>One channel of one window, with the mean of its baseline samples subtracted.\<close>

definition rescale :: "real \<times> real \<Rightarrow> real list \<Rightarrow> real list \<Rightarrow> real list" where
  "rescale baseline ts row = map (\<lambda>x. x - mean (baseline_samples baseline ts row)) row"

text \<open>
  Modelled from the spec: \<open>apply_baseline\<close> is a method of the MNE-Python library; the
  repository holds only the call, not the method's body, and the spec does not describe
  it. The epoching chapter does: "This works by, separately for each channel,
  subtracting the mean of the baseline activity (200 ms to 0 ms before the event) from
  each timepoint in the epoch". The model works on exact real numbers. An interval
  that holds no sample time is refused.
\<close>

definition apply_baseline :: "real \<times> real \<Rightarrow> epochs \<Rightarrow> error + epochs" where
  "apply_baseline baseline eps =
     (if list_ex (in_baseline baseline) (sample_times eps)
      then Inr (eps\<lparr>windows := map (map (rescale baseline (sample_times eps))) (windows eps)\<rparr>)
      else Inl ValueError)"

section \<open>The per-participant loop of the pipeline chapter\<close>

text \<open>
  The pipeline chapter repeats the steps of the earlier chapters for every participant:
  \<^verbatim>\<open>
  evokeds_face = []
  evokeds_car = []
  evokeds_diff = []

  for raw_file, log_file in zip(files_dict['raw_files'],
                                files_dict['log_files']):

      # Preprocessing
      raw = read_raw(raw_file, preload=True)
      ...
      raw = raw.set_eeg_reference('average')

      # Epoching
      log = pd.read_csv(log_file, sep='\t')
      ...
      epochs = epochs.drop_bad({'eeg': 200e-6})

      # Averaging
      evoked_face = epochs['face'].average()
      evokeds_face.append(evoked_face)
      evoked_car = epochs['car'].average()
      evokeds_car.append(evoked_car)
      evoked_list = [evoked_face, evoked_car]
      evoked_diff = combine_evoked(evoked_list, weights=[1, -1])
      evokeds_diff.append(evoked_diff)
  \<close>
  The three lists are the state of the loop.
\<close>

record accumulators =
  evokeds_face :: "matrix list"
  evokeds_car :: "matrix list"
  evokeds_diff :: "matrix list"

text \<open>
  The library calls of the body are parameters of the model, each able to raise:
  \<open>preprocessing\<close> stands for the calls under the comment \<open># Preprocessing\<close> (from
  \<open>read_raw\<close> to \<open>set_eeg_reference\<close>), \<open>epoching\<close> for those under \<open># Epoching\<close> (from
  \<open>pd.read_csv\<close> to \<open>drop_bad\<close>), and \<open>average\<close> for \<open>epochs[condition].average()\<close>.
\<close>

record ('rf, 'lf, 'raw, 'ep) library =
  preprocessing :: "'rf \<Rightarrow> error + 'raw"
  epoching :: "'raw \<Rightarrow> 'lf \<Rightarrow> error + 'ep"
  average :: "'ep \<Rightarrow> string \<Rightarrow> error + matrix"

text \<open>
  One pass through the body. An exception ends the pass at the call that raised it, with
  the lists as they were at that moment: an element appended before stays appended.
\<close>

definition loop_body ::
  "('rf, 'lf, 'raw, 'ep) library \<Rightarrow> 'rf \<Rightarrow> 'lf \<Rightarrow> accumulators \<Rightarrow> error option \<times> accumulators"
where
  "loop_body lib raw_file log_file acc =
     (case preprocessing lib raw_file of
        Inl e \<Rightarrow> (Some e, acc)
      | Inr raw \<Rightarrow>
     (case epoching lib raw log_file of
        Inl e \<Rightarrow> (Some e, acc)
      | Inr epochs \<Rightarrow>
     (case average lib epochs ''face'' of
        Inl e \<Rightarrow> (Some e, acc)
      | Inr evoked_face \<Rightarrow>
     (let acc1 = acc\<lparr>evokeds_face := evokeds_face acc @ [evoked_face]\<rparr> in
      case average lib epochs ''car'' of
        Inl e \<Rightarrow> (Some e, acc1)
      | Inr evoked_car \<Rightarrow>
     (let acc2 = acc1\<lparr>evokeds_car := evokeds_car acc1 @ [evoked_car]\<rparr>;
          evoked_list = [evoked_face, evoked_car] in
      case combine_evoked evoked_list (Weights [1, - 1]) of
        Inl e \<Rightarrow> (Some e, acc2)
      | Inr evoked_diff \<Rightarrow>
          (None, acc2\<lparr>evokeds_diff := evokeds_diff acc2 @ [evoked_diff]\<rparr>))))))"

text \<open>The \<open>for\<close> loop over the zipped file lists: an exception leaves the loop at once.\<close>

fun pipeline_loop ::
  "('rf, 'lf, 'raw, 'ep) library \<Rightarrow> ('rf \<times> 'lf) list \<Rightarrow> accumulators \<Rightarrow> error option \<times> accumulators"
where
  "pipeline_loop lib [] acc = (None, acc)"
| "pipeline_loop lib ((raw_file, log_file) # rest) acc =
     (case loop_body lib raw_file log_file acc of
        (Some e, acc') \<Rightarrow> (Some e, acc')
      | (None, acc') \<Rightarrow> pipeline_loop lib rest acc')"

definition no_evokeds :: accumulators where
  "no_evokeds = \<lparr>evokeds_face = [], evokeds_car = [], evokeds_diff = []\<rparr>"

definition custom_pipeline ::
  "('rf, 'lf, 'raw, 'ep) library \<Rightarrow> 'rf list \<Rightarrow> 'lf list \<Rightarrow> error option \<times> accumulators"
where
  "custom_pipeline lib raw_files log_files =
     pipeline_loop lib (zip raw_files log_files) no_evokeds"

section \<open>The chapter notebooks\<close>

text \<open>
  Every chapter is a Jupyter notebook. Its code cells are transcribed here statement by
  statement, in the order of the file; markdown cells are left out. A statement keeps
  its source text (without quote characters, a tab escape written \<open><tab>\<close>, the micro
  sign written \<open>u\<close>, line breaks and comments dropped); an IPython magic is kept as its
  line, and a cell of R code as its \<open>%%R\<close> line. A statement whose value is a call names
  the routine called before its text: the outermost call of the statement, so that
  \<open>raw.copy().filter(...)\<close> is a call of \<open>filter\<close> and \<open>epochs['face'].average()\<close> one of
  \<open>average\<close>. A cell carries the tags of its metadata.
\<close>

datatype tag = HideInput | HideOutput | OutputScroll | SkipExecution | RaisesException

text \<open>
  What a \<open>for\<close> loop runs over: a sequence written out in the notebook (a list literal, a
  \<open>range\<close>, a \<open>zip\<close> of list literals), or the lists of input files in \<open>files_dict\<close>.
\<close>

datatype iterable = LiteralSequence | InputFiles

datatype stmt =
  Call string string
| Simple string
| Magic string
| For iterable string "stmt list"
| IfElse string "stmt list" "stmt list"
| Def string "stmt list"
| Try "stmt list" "stmt list"

type_synonym cell = "tag list \<times> stmt list"

type_synonym notebook = "cell list"

definition statements :: "notebook \<Rightarrow> stmt list" where
  "statements nb = concat (map snd nb)"

text \<open>The control structures of a statement, outermost first.\<close>

datatype control = Loop iterable string | Branch string | Handler

primrec controls :: "stmt \<Rightarrow> control list" where
  "controls (Call routine text) = []"
| "controls (Simple text) = []"
| "controls (Magic text) = []"
| "controls (For iter header body) = Loop iter header # concat (map controls body)"
| "controls (IfElse test body orelse) =
     Branch test # concat (map controls body) @ concat (map controls orelse)"
| "controls (Def header body) = concat (map controls body)"
| "controls (Try body handlers) =
     Handler # concat (map controls body) @ concat (map controls handlers)"

definition control_structures :: "notebook \<Rightarrow> control list" where
  "control_structures nb = concat (map controls (statements nb))"

text \<open>The cells a notebook marks as expected to fail.\<close>

definition expected_failures :: "notebook \<Rightarrow> stmt list list" where
  "expected_failures nb = map snd (filter (\<lambda>c. RaisesException \<in> set (fst c)) nb)"

text \<open>
  A notebook has no control structure but, at most, one loop over the input files.
\<close>

definition only_participant_loop :: "notebook \<Rightarrow> bool" where
  "only_participant_loop nb \<longleftrightarrow>
     length (control_structures nb) \<le> 1 \<and>
     list_all (\<lambda>c. case c of Loop InputFiles header \<Rightarrow> True | _ \<Rightarrow> False)
       (control_structures nb)"

subsection \<open>The calls of a run\<close>

text \<open>
  The routines a statement calls when it runs and no call raises, in the order of the
  calls. \<open>passes\<close> gives the number of passes of every loop, by its header. A loop
  repeats the calls of its body once per pass; a function definition calls nothing; a
  branch is followed only when both of its sides call the same routines (the one branch
  of the notebooks calls none on either side), and the run is not determined otherwise.
\<close>

primrec run_stmt :: "(string \<Rightarrow> nat) \<Rightarrow> stmt \<Rightarrow> string list option" where
  "run_stmt passes (Call routine text) = Some [routine]"
| "run_stmt passes (Simple text) = Some []"
| "run_stmt passes (Magic text) = Some []"
| "run_stmt passes (For iter header body) =
     map_option (\<lambda>called. concat (replicate (passes header) (concat called)))
       (those (map (run_stmt passes) body))"
| "run_stmt passes (IfElse test body orelse) =
     (if those (map (run_stmt passes) body) = those (map (run_stmt passes) orelse)
      then map_option concat (those (map (run_stmt passes) body))
      else None)"
| "run_stmt passes (Def header body) = Some []"
| "run_stmt passes (Try body handlers) = map_option concat (those (map (run_stmt passes) body))"

text \<open>The cells tagged \<open>skip-execution\<close> are not run.\<close>

definition executed :: "notebook \<Rightarrow> stmt list" where
  "executed nb = concat (map snd (filter (\<lambda>c. SkipExecution \<notin> set (fst c)) nb))"

definition run_notebook :: "(string \<Rightarrow> nat) \<Rightarrow> notebook \<Rightarrow> string list option" where
  "run_notebook passes nb = map_option concat (those (map (run_stmt passes) (executed nb)))"

text \<open>
  The header of the per-participant loop of the pipeline chapter, a run with \<open>n\<close>
  participants, and the run in which every loop makes one pass.
\<close>

definition participant_loop :: string where
  "participant_loop = ''raw_file, log_file in zip(files_dict[raw_files], files_dict[log_files])''"

definition participants :: "nat \<Rightarrow> (string \<Rightarrow> nat) \<Rightarrow> string \<Rightarrow> nat" where
  "participants n passes = passes(participant_loop := n)"

definition once :: "string \<Rightarrow> nat" where
  "once header = 1"

subsection \<open>The steps of a run\<close>

text \<open>
  The step a routine performs is read off its name, after the steps the spec lists:
  acquiring the sample data; constructing the continuous signal (reading the file and
  setting up its channels: the bipolar EOG channels, channel types, dropped channels
  and montage, the chapters' "Add channel information"); frequency filtering; the ICA
  artifact removal; re-referencing to the average ("Re-reference data"); epoching (the
  calls under the comment \<open># Epoching\<close>, and \<open>apply_baseline\<close>); rejection; averaging of
  windows; combining summaries by weights (\<open>combine_evoked\<close>, for the difference wave and
  for the grand averages); plotting. \<open>group_pipeline\<close> is the packaged pipeline, one call
  whose work is outside the repository. Every other routine (inspection, list
  bookkeeping, data frames, the teaching examples) is \<open>Other\<close>.
\<close>

datatype step =
  Acquire | Construct | Filtering | ICA | Rereference | Epoching | Rejection | Averaging
| Combining | Plotting | Packaged | Other

definition step_table :: "(string \<times> step) list" where
  "step_table =
     [(''get_erpcore'', Acquire),
      (''read_raw'', Construct),
      (''set_bipolar_reference'', Construct),
      (''set_channel_types'', Construct),
      (''drop_channels'', Construct),
      (''set_montage'', Construct),
      (''filter'', Filtering),
      (''ICA'', ICA),
      (''fit'', ICA),
      (''find_bads_eog'', ICA),
      (''apply'', ICA),
      (''set_eeg_reference'', Rereference),
      (''events_from_annotations'', Epoching),
      (''read_csv'', Epoching),
      (''astype'', Epoching),
      (''merge_events'', Epoching),
      (''Epochs'', Epoching),
      (''apply_baseline'', Epoching),
      (''drop_bad'', Rejection),
      (''average'', Averaging),
      (''combine_evoked'', Combining),
      (''plot'', Plotting),
      (''plot_sensors'', Plotting),
      (''plot_components'', Plotting),
      (''plot_scores'', Plotting),
      (''plot_image'', Plotting),
      (''plot_compare_evokeds'', Plotting),
      (''plot_topomap'', Plotting),
      (''plot_joint'', Plotting),
      (''lineplot'', Plotting),
      (''violinplot'', Plotting),
      (''margins'', Plotting),
      (''xlim'', Plotting),
      (''axvline'', Plotting),
      (''axhline'', Plotting),
      (''xlabel'', Plotting),
      (''ylabel'', Plotting),
      (''group_pipeline'', Packaged)]"

definition step_of :: "string \<Rightarrow> step" where
  "step_of routine = (case map_of step_table routine of Some s \<Rightarrow> s | None \<Rightarrow> Other)"

definition steps :: "(string \<Rightarrow> nat) \<Rightarrow> notebook \<Rightarrow> step list option" where
  "steps passes nb = map_option (map step_of) (run_notebook passes nb)"

text \<open>The position of a step in the order the spec lists the steps in.\<close>

fun rank :: "step \<Rightarrow> nat" where
  "rank Acquire = 0"
| "rank Construct = 1"
| "rank Filtering = 2"
| "rank ICA = 3"
| "rank Rereference = 4"
| "rank Epoching = 5"
| "rank Rejection = 6"
| "rank Averaging = 7"
| "rank Combining = 8"
| "rank Plotting = 9"
| "rank Packaged = 10"
| "rank Other = 10"

definition listed :: "step \<Rightarrow> bool" where
  "listed s \<longleftrightarrow> s \<noteq> Packaged \<and> s \<noteq> Other"

text \<open>
  The listed steps of a run follow the listed order, plotting last; and the same with
  the plotting calls left out.
\<close>

definition in_listed_order :: "step list \<Rightarrow> bool" where
  "in_listed_order xs \<longleftrightarrow> sorted (map rank (filter listed xs))"

definition in_processing_order :: "step list \<Rightarrow> bool" where
  "in_processing_order xs \<longleftrightarrow>
     sorted (map rank (filter (\<lambda>s. listed s \<and> s \<noteq> Plotting) xs))"

text \<open>Every \<open>a\<close> step comes before every \<open>b\<close> step: no \<open>a\<close> from the first \<open>b\<close> on.\<close>

definition precedes :: "step \<Rightarrow> step \<Rightarrow> step list \<Rightarrow> bool" where
  "precedes a b xs \<longleftrightarrow> a \<notin> set (dropWhile (\<lambda>x. x \<noteq> b) xs)"

text \<open>The order of the steps applied to one recording.\<close>

definition recording_order :: "step list \<Rightarrow> bool" where
  "recording_order xs \<longleftrightarrow>
     in_processing_order xs \<and> precedes Filtering ICA xs \<and>
     precedes ICA Rereference xs \<and> precedes Rereference Epoching xs"

text \<open>A property holds of a determined run, or fails of it.\<close>

definition holds :: "('a \<Rightarrow> bool) \<Rightarrow> 'a option \<Rightarrow> bool" where
  "holds P r = (case r of None \<Rightarrow> False | Some x \<Rightarrow> P x)"

definition fails :: "('a \<Rightarrow> bool) \<Rightarrow> 'a option \<Rightarrow> bool" where
  "fails P r = (case r of None \<Rightarrow> False | Some x \<Rightarrow> \<not> P x)"

subsection \<open>The notebooks\<close>

text \<open>
  The notebooks of the repository: the Python chapter (\<open>src/ipynb/1-python.ipynb\<close> and
  \<open>src/unnamed/part_007\<close>), the preprocessing chapter (\<open>src/unnamed/part_002\<close> and
  \<open>part_004\<close>), the epoching chapter (the two notebooks of \<open>src/ipynb/3-epoching.ipynb\<close>),
  the averaging chapter (\<open>src/ipynb/4-averaging.ipynb\<close> and \<open>src/unnamed/part_000\<close>), the
  pipeline chapter (\<open>src/unnamed/part_003\<close>) and the statistics chapter
  (\<open>src/unnamed/part_005\<close>).
\<close>

definition python_ipynb :: notebook where
  "python_ipynb =
    [([],
       [Simple ''3 + 3'']),
     ([],
       [Simple ''10 - 7'']),
     ([],
       [Simple ''7 * 8'']),
     ([],
       [Simple ''10 / 4'']),
     ([],
       [Simple ''10 // 4'']),
     ([],
       [Simple ''2 ** 4'']),
     ([],
       [Simple ''16 ** 0.5'']),
     ([], []),
     ([],
       [Simple ''a = 3'',
        Simple ''a'']),
     ([],
       [Simple ''a = 3'',
        Simple ''b = 4'',
        Simple ''c = a + b'',
        Simple ''c'']),
     ([],
       [Simple ''a = 3'',
        Simple ''a = 5'',
        Simple ''a'']),
     ([],
       [Simple ''a = 3'',
        Simple ''b = a'',
        Simple ''a = 5'',
        Simple ''b'']),
     ([],
       [Simple ''my_var = 3'',
        Call ''type'' ''type(my_var)'']),
     ([],
       [Simple ''my_var = 3.0'',
        Call ''type'' ''type(my_var)'']),
     ([],
       [Simple ''my_var = Hello world'',
        Call ''type'' ''type(my_var)'']),
     ([],
       [Simple ''my_var = True'',
        Call ''type'' ''type(my_var)'']),
     ([],
       [Simple ''my_var = None'',
        Call ''type'' ''type(my_var)'']),
     ([],
       [Simple ''my_var = [1, 2, 3]'',
        Call ''type'' ''type(my_var)'']),
     ([],
       [Simple ''my_var[1]'']),
     ([],
       [Simple ''my_var[2] = Hooray!'',
        Simple ''my_var'']),
     ([],
       [Simple ''my_var = (1, 2, 3)'',
        Call ''type'' ''type(my_var)'']),
     ([],
       [Simple ''my_var[1]'']),
     ([RaisesException],
       [Simple ''my_var[2] = Hooray!'']),
     ([],
       [Simple ''my_var = {Name: Berger, First_name: Hans, age: 53, married: True}'',
        Call ''type'' ''type(my_var)'']),
     ([],
       [Simple ''my_var[First_name]'']),
     ([],
       [Simple ''names = [Alice, Bob, Chantoya]'',
        For LiteralSequence ''name in names''
          [Call ''print'' ''print(Hello + name)'']]),
     ([],
       [Simple ''names = [Alice, Bob, Chantoya]'',
        Simple ''greetings = []'',
        For LiteralSequence ''name in names''
          [Call ''append'' ''greetings.append(Hello + name)''],
        Simple ''greetings'']),
     ([],
       [Simple ''numbers = [1, 2, 3]'',
        Call ''sum'' ''sum(numbers)'']),
     ([],
       [Call ''len'' ''len(numbers)'']),
     ([],
       [Def ''square(x)''
          [Simple ''Multiplies a number (x) by itself.'',
           Simple ''return x ** 2''],
        Call ''square'' ''square(3)'']),
     ([],
       [Def ''power(base, exponent)''
          [Simple ''Exponentiates a number (base) to a given power (exponent).'',
           Simple ''return base ** exponent''],
        Call ''power'' ''power(2, exponent=3)'']),
     ([], []),
     ([],
       [Simple ''import numpy'',
        Simple ''numbers = [1, 2, 3]'',
        Call ''mean'' ''numpy.mean(numbers)'']),
     ([],
       [Simple ''import numpy as np'',
        Call ''mean'' ''np.mean(numbers)'']),
     ([],
       [Simple ''from numpy import mean'',
        Call ''mean'' ''mean(numbers)'']),
     ([],
       [Call ''array'' ''my_array = np.array([[1, 2, 3], [4, 5, 6]])'',
        Simple ''my_array'']),
     ([],
       [Call ''mean'' ''np.mean(my_array)'']),
     ([],
       [Call ''mean'' ''np.mean(my_array, axis=0)'']),
     ([],
       [Call ''mean'' ''np.mean(my_array, axis=1)''])]"

definition python_part_007 :: notebook where
  "python_part_007 =
    [([],
       [Simple ''3 + 3'']),
     ([],
       [Simple ''10 / 4'']),
     ([], []),
     ([],
       [Simple ''a = 3'',
        Simple ''a'']),
     ([],
       [Simple ''a = 3'',
        Simple ''b = 4'',
        Simple ''c = a + b'',
        Simple ''c'']),
     ([],
       [Simple ''my_var = 3'',
        Call ''type'' ''type(my_var)'']),
     ([],
       [Simple ''my_var = 3.0'',
        Call ''type'' ''type(my_var)'']),
     ([],
       [Simple ''my_var = Hello world'',
        Call ''type'' ''type(my_var)'']),
     ([],
       [Simple ''my_var = True'',
        Call ''type'' ''type(my_var)'']),
     ([],
       [Simple ''my_var = None'',
        Call ''type'' ''type(my_var)'']),
     ([],
       [Simple ''my_var = [1, 2, 3]'',
        Call ''type'' ''type(my_var)'']),
     ([],
       [Simple ''my_var[0]'']),
     ([],
       [Simple ''my_var[2] = Hooray!'',
        Simple ''my_var'']),
     ([],
       [Simple ''my_var = (1, 2, 3)'',
        Call ''type'' ''type(my_var)'']),
     ([],
       [Simple ''my_var[0]'']),
     ([RaisesException],
       [Simple ''my_var[2] = Hooray!'']),
     ([],
       [Simple ''my_var = {Name: Berger, First_name: Hans, age: 53, married: True}'',
        Call ''type'' ''type(my_var)'']),
     ([],
       [Simple ''my_var[First_name]'']),
     ([],
       [Simple ''names = [Alice, Bob, Chantoya]'',
        For LiteralSequence ''name in names''
          [Call ''print'' ''print(Hello + name)'']]),
     ([],
       [Simple ''names = [Alice, Bob, Chantoya]'',
        Simple ''greetings = []'',
        For LiteralSequence ''name in names''
          [Call ''append'' ''greetings.append(Hello + name)''],
        Simple ''greetings'']),
     ([],
       [Simple ''numbers = [1, 2, 3]'',
        Call ''sum'' ''sum(numbers)'']),
     ([],
       [Call ''len'' ''len(numbers)'']),
     ([],
       [Def ''square(x)''
          [Simple ''Multiplies a number (x) by itself.'',
           Simple ''return x ** 2''],
        Call ''square'' ''square(3)'']),
     ([],
       [Def ''power(base, exponent)''
          [Simple ''Exponentiates a number (base) to a given power (exponent).'',
           Simple ''return base ** exponent''],
        Call ''power'' ''power(2, exponent=3)'']),
     ([],
       [Simple ''my_string = Hello world'',
        Call ''upper'' ''my_string.upper()'']),
     ([], []),
     ([],
       [Simple ''import numpy'',
        Simple ''numbers = [1, 2, 3]'',
        Call ''mean'' ''numpy.mean(numbers)'']),
     ([],
       [Simple ''import numpy as np'',
        Call ''mean'' ''np.mean(numbers)'']),
     ([],
       [Simple ''from numpy import mean'',
        Call ''mean'' ''mean(numbers)'']),
     ([],
       [Call ''array'' ''my_array = np.array([[1, 2, 3], [4, 5, 6]])'',
        Simple ''my_array'']),
     ([],
       [Call ''mean'' ''np.mean(my_array)'']),
     ([],
       [Call ''mean'' ''np.mean(my_array, axis=0)'']),
     ([],
       [Call ''mean'' ''np.mean(my_array, axis=1)''])]"

definition preprocessing_part_002 :: notebook where
  "preprocessing_part_002 =
    [([], []),
     ([],
       [Simple ''from mne import set_bipolar_reference'',
        Simple ''from mne.io import read_raw'',
        Simple ''from mne.preprocessing import ICA'',
        Simple ''from pipeline.datasets import get_erpcore'']),
     ([],
       [Call ''get_erpcore'' ''files_dict = get_erpcore(N170, participants=sub-004, path=data)'',
        Simple ''files_dict'']),
     ([],
       [Simple ''raw_file = files_dict[raw_files][0]'',
        Call ''read_raw'' ''raw = read_raw(raw_file, preload=True)'',
        Simple ''raw'']),
     ([],
       [Call ''get_data'' ''raw.get_data()'']),
     ([],
       [Call ''get_data'' ''raw.get_data().shape'']),
     ([],
       [Call ''plot'' ''_ = raw.plot(start=60.0, duration=5.0)'']),
     ([],
       [Call ''set_bipolar_reference'' ''raw = set_bipolar_reference(raw, anode=FP1, cathode=VEOG_lower, ch_name=VEOG, drop_refs=False)'',
        Call ''set_bipolar_reference'' ''raw = set_bipolar_reference(raw, anode=HEOG_right, cathode=HEOG_left, ch_name=HEOG, drop_refs=False)'',
        Call ''set_channel_types'' ''raw = raw.set_channel_types({VEOG: eog, HEOG: eog})'',
        Call ''drop_channels'' ''raw = raw.drop_channels([VEOG_lower, HEOG_right, HEOG_left])'']),
     ([],
       [Call ''set_montage'' ''raw = raw.set_montage(biosemi64, match_case=False)'',
        Call ''plot_sensors'' ''_ = raw.plot_sensors(show_names=True)'']),
     ([],
       [Call ''filter'' ''raw = raw.filter(l_freq=0.1, h_freq=None)'',
        Call ''plot'' ''_ = raw.plot(start=60.0, duration=5.0)'']),
     ([],
       [Call ''filter'' ''raw = raw.filter(l_freq=None, h_freq=30.0)'',
        Call ''plot'' ''_ = raw.plot(start=60.0, duration=5.0)'']),
     ([],
       [Call ''filter'' ''raw_copy = raw.copy().filter(l_freq=1.0, h_freq=None)'',
        Call ''ICA'' ''ica = ICA(n_components=15)'',
        Call ''fit'' ''ica = ica.fit(raw_copy)'',
        Call ''plot_components'' ''_ = ica.plot_components()'']),
     ([],
       [Call ''find_bads_eog'' ''eog_indices, eog_scores = ica.find_bads_eog(raw, ch_name=[HEOG, VEOG], verbose=False)'',
        Simple ''ica.exclude = eog_indices'',
        Call ''plot_scores'' ''_ = ica.plot_scores(eog_scores)'']),
     ([],
       [Call ''apply'' ''raw = ica.apply(raw)'',
        Call ''plot'' ''_ = raw.plot(start=60.0, duration=5.0)'']),
     ([],
       [Call ''set_eeg_reference'' ''raw = raw.set_eeg_reference(average)'',
        Call ''plot'' ''_ = raw.plot(start=60.0, duration=5.0)'']),
     ([SkipExecution],
       [Simple ''...''])]"

definition preprocessing_part_004 :: notebook where
  "preprocessing_part_004 =
    [([], []),
     ([],
       [Simple ''from mne import set_bipolar_reference'',
        Simple ''from mne.io import read_raw'',
        Simple ''from mne.preprocessing import ICA'',
        Simple ''from mne.viz import set_browser_backend'',
        Simple ''from pipeline.datasets import get_erpcore'']),
     ([],
       [Call ''get_erpcore'' ''files_dict = get_erpcore(N170, participants=sub-004)'',
        Simple ''files_dict'']),
     ([],
       [Simple ''raw_file = files_dict[raw_files][0]'',
        Call ''read_raw'' ''raw = read_raw(raw_file, preload=True)'',
        Simple ''raw'']),
     ([],
       [Call ''get_data'' ''raw.get_data().shape'']),
     ([],
       [Call ''set_browser_backend'' ''set_browser_backend(matplotlib)'',
        Call ''plot'' ''_ = raw.plot(start=60.0, duration=5.0)'']),
     ([],
       [Call ''set_bipolar_reference'' ''raw = set_bipolar_reference(raw, anode=FP1, cathode=VEOG_lower, ch_name=VEOG, drop_refs=False)'',
        Call ''set_bipolar_reference'' ''raw = set_bipolar_reference(raw, anode=HEOG_right, cathode=HEOG_left, ch_name=HEOG, drop_refs=False)'',
        Call ''set_channel_types'' ''raw = raw.set_channel_types({VEOG: eog, HEOG: eog})'',
        Call ''drop_channels'' ''raw = raw.drop_channels([VEOG_lower, HEOG_right, HEOG_left])'']),
     ([],
       [Call ''set_montage'' ''raw = raw.set_montage(biosemi64, match_case=False)'']),
     ([],
       [Call ''filter'' ''raw = raw.filter(l_freq=0.1, h_freq=None)'',
        Call ''plot'' ''_ = raw.plot(start=60.0, duration=5.0)'']),
     ([],
       [Call ''filter'' ''raw = raw.filter(l_freq=None, h_freq=30.0)'',
        Call ''plot'' ''_ = raw.plot(start=60.0, duration=5.0)'']),
     ([],
       [Call ''filter'' ''raw_copy = raw.copy().filter(l_freq=1.0, h_freq=None)'',
        Call ''ICA'' ''ica = ICA(n_components=15)'',
        Call ''fit'' ''ica = ica.fit(raw_copy)'',
        Call ''plot_components'' ''_ = ica.plot_components()'']),
     ([],
       [Call ''find_bads_eog'' ''eog_indices, eog_scores = ica.find_bads_eog(raw, ch_name=[HEOG, VEOG], verbose=False)'',
        Simple ''ica.exclude = eog_indices'',
        Call ''plot_scores'' ''_ = ica.plot_scores(eog_scores)'']),
     ([],
       [Call ''apply'' ''raw = ica.apply(raw)'',
        Call ''plot'' ''_ = raw.plot(start=60.0, duration=5.0)'']),
     ([],
       [Call ''set_eeg_reference'' ''raw = raw.set_eeg_reference(average)'',
        Call ''plot'' ''_ = raw.plot(start=60.0, duration=5.0)'']),
     ([SkipExecution],
       [Simple ''...''])]"

definition epoching_ipynb_first :: notebook where
  "epoching_ipynb_first =
    [([HideInput, HideOutput],
       [Simple ''from mne import set_bipolar_reference'',
        Simple ''from mne.io import read_raw'',
        Simple ''from mne.preprocessing import ICA'',
        Simple ''from pipeline.datasets import get_erpcore'',
        Simple ''eog_names = [VEOG, HEOG]'',
        Simple ''eog_anodes = [FP1, HEOG_right]'',
        Simple ''eog_cathodes = [VEOG_lower, HEOG_left]'',
        Simple ''eog_drop = [VEOG_lower, HEOG_left, HEOG_right]'',
        Simple ''montage = biosemi64'',
        Simple ''l_freq = 0.1'',
        Simple ''h_freq = 30.0'',
        Simple ''n_components = 15'',
        Call ''get_erpcore'' ''files_dict = get_erpcore(N170, participants=sub-004, path=data)'',
        Simple ''raw_file = files_dict[raw_files][0]'',
        Call ''read_raw'' ''raw = read_raw(raw_file, preload=True)'',
        For LiteralSequence ''eog_name, anode, cathode in zip(eog_names, eog_anodes, eog_cathodes)''
          [Call ''set_bipolar_reference'' ''raw = set_bipolar_reference(raw, anode, cathode, eog_name, drop_refs=False)'',
           Call ''set_channel_types'' ''raw = raw.set_channel_types({eog_name: eog})''],
        Call ''drop_channels'' ''raw = raw.drop_channels(eog_drop)'',
        Call ''set_montage'' ''raw = raw.set_montage(montage, match_case=False)'',
        Call ''filter'' ''raw = raw.filter(l_freq, h_freq)'',
        Call ''filter'' ''raw_copy = raw.copy().filter(l_freq=1.0, h_freq=None)'',
        Call ''ICA'' ''ica = ICA(n_components=n_components)'',
        Call ''fit'' ''ica = ica.fit(raw_copy)'',
        Call ''find_bads_eog'' ''eog_indices, eog_scores = ica.find_bads_eog(raw, eog_names, verbose=False)'',
        Simple ''ica.exclude = eog_indices'',
        Call ''apply'' ''raw = ica.apply(raw)'',
        Call ''set_eeg_reference'' ''raw = raw.set_eeg_reference(average)'']),
     ([],
       [Simple ''raw'']),
     ([],
       [Simple ''from mne import Epochs, events_from_annotations'']),
     ([],
       [Call ''events_from_annotations'' ''events, event_id = events_from_annotations(raw)'']),
     ([],
       [Simple ''events'']),
     ([OutputScroll],
       [Simple ''event_id'']),
     ([],
       [Magic ''%cat data/erpcore/N170/task-N170_events.json'']),
     ([OutputScroll],
       [Simple ''event_id = {}'',
        For LiteralSequence ''trigger in range(1, 81)''
          [IfElse ''trigger <= 40''
             [Simple ''event_id[fface/{trigger}] = trigger'']
             [Simple ''event_id[fcar/{trigger}] = trigger'']],
        Simple ''event_id'']),
     ([],
       [Call ''Epochs'' ''epochs = Epochs(raw, events, event_id, tmin=-0.2, tmax=0.8, baseline=None)'']),
     ([],
       [Call ''get_data'' ''epochs.get_data().shape'']),
     ([],
       [Call ''plot'' ''_ = epochs.plot(events=True)'']),
     ([],
       [Call ''plot_image'' ''_ = epochs.plot_image(picks=PO8)'']),
     ([],
       [Call ''apply_baseline'' ''epochs = epochs.apply_baseline((-0.2, 0.0))'',
        Call ''plot'' ''_ = epochs.plot(events=True)'']),
     ([],
       [Call ''drop_bad'' ''epochs = epochs.drop_bad({eeg: 100e-6})'']),
     ([],
       [Call ''plot_image'' ''_ = epochs.plot_image(picks=PO8)''])]"

definition epoching_ipynb_second :: notebook where
  "epoching_ipynb_second =
    [([], []),
     ([],
       [Simple ''import pandas as pd'',
        Simple ''from mne import (Epochs, events_from_annotations, merge_events, set_bipolar_reference)'',
        Simple ''from mne.io import read_raw'',
        Simple ''from mne.preprocessing import ICA'',
        Simple ''from pipeline.datasets import get_erpcore'']),
     ([HideInput, HideOutput],
       [Call ''get_erpcore'' ''files_dict = get_erpcore(N170, participants=sub-004, path=data)'',
        Simple ''raw_file = files_dict[raw_files][0]'',
        Simple ''log_file = files_dict[log_files][0]'',
        Call ''read_raw'' ''raw = read_raw(raw_file, preload=True)'',
        Call ''set_bipolar_reference'' ''raw = set_bipolar_reference(raw, anode=FP1, cathode=VEOG_lower, ch_name=VEOG, drop_refs=False)'',
        Call ''set_bipolar_reference'' ''raw = set_bipolar_reference(raw, anode=HEOG_right, cathode=HEOG_left, ch_name=HEOG, drop_refs=False)'',
        Call ''set_channel_types'' ''raw = raw.set_channel_types({VEOG: eog, HEOG: eog})'',
        Call ''drop_channels'' ''raw = raw.drop_channels([VEOG_lower, HEOG_right, HEOG_left])'',
        Call ''set_montage'' ''raw = raw.set_montage(biosemi64, match_case=False)'',
        Call ''filter'' ''raw = raw.filter(l_freq=0.1, h_freq=30.0)'',
        Call ''filter'' ''raw_copy = raw.copy().filter(l_freq=1.0, h_freq=None, verbose=False)'',
        Call ''ICA'' ''ica = ICA(n_components=15)'',
        Call ''fit'' ''ica = ica.fit(raw_copy)'',
        Call ''find_bads_eog'' ''eog_indices, eog_scores = ica.find_bads_eog(raw, ch_name=[VEOG, HEOG], verbose=False)'',
        Simple ''ica.exclude = eog_indices'',
        Call ''apply'' ''raw = ica.apply(raw)'',
        Call ''set_eeg_reference'' ''raw = raw.set_eeg_reference(average)'']),
     ([],
       [Simple ''raw'']),
     ([],
       [Call ''events_from_annotations'' ''events, event_id = events_from_annotations(raw)'']),
     ([],
       [Simple ''events'']),
     ([OutputScroll],
       [Simple ''event_id'']),
     ([OutputScroll],
       [Magic ''%cat data/erpcore/N170/sub-004/eeg/sub-004_task-N170_events.tsv'']),
     ([],
       [Simple ''log_file = files_dict[log_files][0]'',
        Call ''read_csv'' ''log = pd.read_csv(log_file, sep=<tab>)'',
        Simple ''log'']),
     ([],
       [Call ''astype'' ''events = log[[sample, duration, value]].values.astype(int)'',
        Simple ''events'']),
     ([],
       [Magic ''%cat data/erpcore/N170/task-N170_events.json'']),
     ([],
       [Call ''merge_events'' ''events = merge_events(events, ids=range(1, 41), new_id=1)'',
        Call ''merge_events'' ''events = merge_events(events, ids=range(41, 81), new_id=2)'',
        Simple ''events'']),
     ([],
       [Simple ''event_id = {face: 1, car: 2}'']),
     ([],
       [Call ''Epochs'' ''epochs = Epochs(raw, events, event_id, tmin=-0.2, tmax=0.8, baseline=None)'']),
     ([],
       [Call ''get_data'' ''epochs.get_data().shape'']),
     ([],
       [Call ''plot'' ''_ = epochs.plot(events=True)'']),
     ([],
       [Call ''plot_image'' ''_ = epochs.plot_image(picks=PO8)'']),
     ([],
       [Call ''apply_baseline'' ''epochs = epochs.apply_baseline((-0.2, 0.0))'',
        Call ''plot'' ''_ = epochs.plot(events=True)'']),
     ([],
       [Call ''drop_bad'' ''epochs = epochs.drop_bad({eeg: 100e-6})'']),
     ([],
       [Call ''plot_image'' ''_ = epochs.plot_image(picks=PO8)'']),
     ([SkipExecution],
       [Magic ''%cat data/erpcore/.../task-..._events.json'']),
     ([SkipExecution],
       [Simple ''...''])]"

definition averaging_ipynb :: notebook where
  "averaging_ipynb =
    [([], []),
     ([],
       [Simple ''from mne import (Epochs, combine_evoked, events_from_annotations, merge_events, set_bipolar_reference)'',
        Simple ''from mne.io import read_raw'',
        Simple ''from mne.preprocessing import ICA'',
        Simple ''from mne.viz import plot_compare_evokeds'',
        Simple ''from pipeline.datasets import get_erpcore'']),
     ([HideInput, HideOutput],
       [Simple ''eog_names = [VEOG, HEOG]'',
        Simple ''eog_anodes = [FP1, HEOG_right]'',
        Simple ''eog_cathodes = [VEOG_lower, HEOG_left]'',
        Simple ''eog_drop = [VEOG_lower, HEOG_left, HEOG_right]'',
        Simple ''montage = biosemi64'',
        Simple ''l_freq = 0.1'',
        Simple ''h_freq = 30.0'',
        Simple ''n_components = 15'',
        Call ''get_erpcore'' ''files_dict = get_erpcore(N170, participants=sub-004, path=data)'',
        Simple ''raw_file = files_dict[raw_files][0]'',
        Call ''read_raw'' ''raw = read_raw(raw_file, preload=True)'',
        For LiteralSequence ''eog_name, anode, cathode in zip(eog_names, eog_anodes, eog_cathodes)''
          [Call ''set_bipolar_reference'' ''raw = set_bipolar_reference(raw, anode, cathode, eog_name, drop_refs=False)'',
           Call ''set_channel_types'' ''raw = raw.set_channel_types({eog_name: eog})''],
        Call ''drop_channels'' ''raw = raw.drop_channels(eog_drop)'',
        Call ''set_montage'' ''raw = raw.set_montage(montage, match_case=False)'',
        Call ''filter'' ''raw = raw.filter(l_freq, h_freq)'',
        Call ''filter'' ''raw_copy = raw.copy().filter(l_freq=1.0, h_freq=None)'',
        Call ''ICA'' ''ica = ICA(n_components=n_components)'',
        Call ''fit'' ''ica = ica.fit(raw_copy)'',
        Call ''find_bads_eog'' ''eog_indices, eog_scores = ica.find_bads_eog(raw, eog_names, verbose=False)'',
        Simple ''ica.exclude = eog_indices'',
        Call ''apply'' ''raw = ica.apply(raw)'',
        Call ''set_eeg_reference'' ''raw = raw.set_eeg_reference(average)'',
        Call ''events_from_annotations'' ''events, event_id = events_from_annotations(raw)'',
        Call ''merge_events'' ''events = merge_events(events, ids=range(1, 41), new_id=1)'',
        Call ''merge_events'' ''events = merge_events(events, ids=range(41, 81), new_id=2)'',
        Simple ''event_id = {face: 1, car: 2}'',
        Call ''Epochs'' ''epochs = Epochs(raw, events, event_id, tmin=-0.2, tmax=0.8, baseline=(-0.2, 0.0), reject={eeg: 100e-6})'']),
     ([],
       [Simple ''epochs'']),
     ([],
       [Call ''average'' ''evokeds = epochs.average()'',
        Simple ''evokeds'']),
     ([],
       [Call ''get_data'' ''evokeds.get_data().shape'']),
     ([],
       [Call ''plot'' ''_ = evokeds.plot(picks=PO8)'']),
     ([],
       [Call ''plot'' ''_ = evokeds.plot()'']),
     ([],
       [Call ''average'' ''evokeds_face = epochs[face].average()'',
        Simple ''evokeds_face.comment = face'',
        Simple ''evokeds_face'']),
     ([],
       [Call ''average'' ''evokeds_car = epochs[car].average()'',
        Simple ''evokeds_car.comment = car'',
        Simple ''evokeds_car'']),
     ([],
       [Simple ''evokeds_list = [evokeds_face, evokeds_car]'',
        Call ''plot_compare_evokeds'' ''_ = plot_compare_evokeds(evokeds_list, picks=PO8)'']),
     ([],
       [Call ''combine_evoked'' ''evokeds_diff = combine_evoked(evokeds_list, weights=[1, -1])'',
        Simple ''evokeds_diff.comment = face - car'',
        Call ''plot'' ''_ = evokeds_diff.plot()'']),
     ([],
       [Call ''plot_topomap'' ''_ = evokeds_diff.plot_topomap(times=[0.17])'']),
     ([], []),
     ([],
       [Call ''plot_joint'' ''_ = evokeds_diff.plot_joint(times=[0.0, 0.17, 0.3])''])]"

definition averaging_part_000 :: notebook where
  "averaging_part_000 =
    [([], []),
     ([],
       [Simple ''import pandas as pd'',
        Simple ''from mne import Epochs, combine_evoked, merge_events, set_bipolar_reference'',
        Simple ''from mne.io import read_raw'',
        Simple ''from mne.preprocessing import ICA'',
        Simple ''from mne.viz import plot_compare_evokeds'',
        Simple ''from pipeline.datasets import get_erpcore'']),
     ([HideInput, HideOutput],
       [Call ''get_erpcore'' ''files_dict = get_erpcore(N170, participants=sub-004, path=data)'',
        Simple ''raw_file = files_dict[raw_files][0]'',
        Simple ''log_file = files_dict[log_files][0]'',
        Call ''read_raw'' ''raw = read_raw(raw_file, preload=True)'',
        Call ''set_bipolar_reference'' ''raw = set_bipolar_reference(raw, anode=FP1, cathode=VEOG_lower, ch_name=VEOG, drop_refs=False)'',
        Call ''set_bipolar_reference'' ''raw = set_bipolar_reference(raw, anode=HEOG_right, cathode=HEOG_left, ch_name=HEOG, drop_refs=False)'',
        Call ''set_channel_types'' ''raw = raw.set_channel_types({VEOG: eog, HEOG: eog})'',
        Call ''drop_channels'' ''raw = raw.drop_channels([VEOG_lower, HEOG_right, HEOG_left])'',
        Call ''set_montage'' ''raw = raw.set_montage(biosemi64, match_case=False)'',
        Call ''filter'' ''raw = raw.filter(l_freq=0.1, h_freq=30.0)'',
        Call ''filter'' ''raw_copy = raw.copy().filter(l_freq=1.0, h_freq=None, verbose=False)'',
        Call ''ICA'' ''ica = ICA(n_components=15)'',
        Call ''fit'' ''ica = ica.fit(raw_copy)'',
        Call ''find_bads_eog'' ''eog_indices, eog_scores = ica.find_bads_eog(raw, ch_name=[VEOG, HEOG], verbose=False)'',
        Simple ''ica.exclude = eog_indices'',
        Call ''apply'' ''raw = ica.apply(raw)'',
        Call ''set_eeg_reference'' ''raw = raw.set_eeg_reference(average)'',
        Call ''read_csv'' ''log = pd.read_csv(log_file, sep=<tab>)'',
        Call ''astype'' ''events = log[[sample, duration, value]].values.astype(int)'',
        Call ''merge_events'' ''events = merge_events(events, ids=range(1, 41), new_id=1)'',
        Call ''merge_events'' ''events = merge_events(events, ids=range(41, 81), new_id=2)'',
        Simple ''event_id = {face: 1, car: 2}'',
        Call ''Epochs'' ''epochs = Epochs(raw, events, event_id, tmin=-0.2, tmax=0.8, baseline=(-0.2, 0.0), preload=True)'',
        Call ''drop_bad'' ''epochs = epochs.drop_bad({eeg: 100e-6})'']),
     ([],
       [Simple ''epochs'']),
     ([],
       [Call ''average'' ''evokeds = epochs.average()'',
        Simple ''evokeds'']),
     ([],
       [Call ''get_data'' ''evokeds.get_data().shape'']),
     ([],
       [Call ''plot'' ''_ = evokeds.plot(picks=PO8)'']),
     ([],
       [Call ''plot'' ''_ = evokeds.plot()'']),
     ([],
       [Call ''average'' ''evokeds_face = epochs[face].average()'',
        Simple ''evokeds_face.comment = face'',
        Simple ''evokeds_face'']),
     ([],
       [Call ''average'' ''evokeds_car = epochs[car].average()'',
        Simple ''evokeds_car.comment = car'',
        Simple ''evokeds_car'']),
     ([],
       [Simple ''evokeds_list = [evokeds_face, evokeds_car]'',
        Call ''plot_compare_evokeds'' ''_ = plot_compare_evokeds(evokeds_list, picks=PO8)'']),
     ([],
       [Call ''combine_evoked'' ''evokeds_diff = combine_evoked(evokeds_list, weights=[1, -1])'',
        Simple ''evokeds_diff.comment = face - car'',
        Call ''plot'' ''_ = evokeds_diff.plot()'']),
     ([],
       [Call ''plot_topomap'' ''_ = evokeds_diff.plot_topomap(times=[0.17])'']),
     ([],
       [Call ''plot_joint'' ''_ = evokeds_diff.plot_joint(times=[0.0, 0.15, 0.17])'']),
     ([SkipExecution],
       [Simple ''...''])]"

definition pipeline_part_003 :: notebook where
  "pipeline_part_003 =
    [([], []),
     ([],
       [Simple ''import matplotlib.pyplot as plt'',
        Simple ''import pandas as pd'',
        Simple ''import seaborn as sns'',
        Simple ''from mne import Epochs, combine_evoked, merge_events, set_bipolar_reference'',
        Simple ''from mne.io import read_raw'',
        Simple ''from mne.preprocessing import ICA'',
        Simple ''from mne.viz import plot_compare_evokeds'',
        Simple ''from pipeline import group_pipeline'',
        Simple ''from pipeline.datasets import get_erpcore'']),
     ([OutputScroll],
       [Call ''get_erpcore'' ''files_dict = get_erpcore(N170, participants=10, path=data)'']),
     ([],
       [Simple ''files_dict'']),
     ([OutputScroll],
       [Simple ''evokeds_face = []'',
        Simple ''evokeds_car = []'',
        Simple ''evokeds_diff = []'',
        For InputFiles ''raw_file, log_file in zip(files_dict[raw_files], files_dict[log_files])''
          [Call ''read_raw'' ''raw = read_raw(raw_file, preload=True)'',
           Call ''set_bipolar_reference'' ''raw = set_bipolar_reference(raw, anode=FP1, cathode=VEOG_lower, ch_name=VEOG, drop_refs=False)'',
           Call ''set_bipolar_reference'' ''raw = set_bipolar_reference(raw, anode=HEOG_right, cathode=HEOG_left, ch_name=HEOG, drop_refs=False)'',
           Call ''set_channel_types'' ''raw = raw.set_channel_types({VEOG: eog, HEOG: eog})'',
           Call ''drop_channels'' ''raw = raw.drop_channels([VEOG_lower, HEOG_right, HEOG_left])'',
           Call ''set_montage'' ''raw = raw.set_montage(biosemi64, match_case=False)'',
           Call ''filter'' ''raw = raw.filter(l_freq=0.1, h_freq=30.0)'',
           Call ''filter'' ''raw_copy = raw.copy().filter(l_freq=1.0, h_freq=None, verbose=False)'',
           Call ''ICA'' ''ica = ICA(n_components=15)'',
           Call ''fit'' ''ica = ica.fit(raw_copy)'',
           Call ''find_bads_eog'' ''eog_indices, eog_scores = ica.find_bads_eog(raw, ch_name=[VEOG, HEOG], verbose=False)'',
           Simple ''ica.exclude = eog_indices'',
           Call ''apply'' ''raw = ica.apply(raw)'',
           Call ''set_eeg_reference'' ''raw = raw.set_eeg_reference(average)'',
           Call ''read_csv'' ''log = pd.read_csv(log_file, sep=<tab>)'',
           Call ''astype'' ''events = log[[sample, duration, value]].values.astype(int)'',
           Call ''merge_events'' ''events = merge_events(events, ids=range(1, 41), new_id=1)'',
           Call ''merge_events'' ''events = merge_events(events, ids=range(41, 81), new_id=2)'',
           Simple ''event_id = {face: 1, car: 2}'',
           Call ''Epochs'' ''epochs = Epochs(raw, events, event_id, tmin=-0.2, tmax=0.8, baseline=(-0.2, 0.0), preload=True)'',
           Call ''drop_bad'' ''epochs = epochs.drop_bad({eeg: 200e-6})'',
           Call ''average'' ''evoked_face = epochs[face].average()'',
           Call ''append'' ''evokeds_face.append(evoked_face)'',
           Call ''average'' ''evoked_car = epochs[car].average()'',
           Call ''append'' ''evokeds_car.append(evoked_car)'',
           Simple ''evoked_list = [evoked_face, evoked_car]'',
           Call ''combine_evoked'' ''evoked_diff = combine_evoked(evoked_list, weights=[1, -1])'',
           Call ''append'' ''evokeds_diff.append(evoked_diff)'']]),
     ([],
       [Call ''combine_evoked'' ''grand_evoked_face = combine_evoked(evokeds_face, weights=equal)'',
        Simple ''grand_evoked_face.comment = face'',
        Call ''combine_evoked'' ''grand_evoked_car = combine_evoked(evokeds_car, weights=equal)'',
        Simple ''grand_evoked_car.comment = car'',
        Simple ''grand_evoked_list = [grand_evoked_face, grand_evoked_car]'',
        Call ''plot_compare_evokeds'' ''_ = plot_compare_evokeds(grand_evoked_list, picks=PO8)'']),
     ([],
       [Call ''combine_evoked'' ''grand_evoked_diff = combine_evoked(evokeds_diff, weights=equal)'',
        Simple ''grand_evoked_diff.comment = face - car'',
        Call ''plot'' ''_ = grand_evoked_diff.plot(picks=PO8)'']),
     ([],
       [Call ''plot_joint'' ''_ = grand_evoked_diff.plot_joint(times=[0.0, 0.15, 0.17])'']),
     ([OutputScroll],
       [Call ''group_pipeline'' ''trials, evokeds, config = group_pipeline(raw_files=files_dict[raw_files], log_files=files_dict[log_files], output_dir=output, montage=biosemi64, ica_method=fastica, ica_n_components=15, triggers=range(1, 81), skip_log_conditions={value: range(81, 203)}, components={name: N170, tmin: 0.11, tmax: 0.15, roi: [PO8]}, average_by={face: value <= 40, car: value > 40})'']),
     ([],
       [Simple ''trials'']),
     ([],
       [Simple ''evokeds'']),
     ([],
       [Call ''lineplot'' ''_ = sns.lineplot(evokeds, x=time, y=PO8, hue=label, estimator=mean, errorbar=se)'']),
     ([],
       [Call ''lineplot'' ''_ = sns.lineplot(evokeds, x=time, y=PO8, hue=label, estimator=mean, errorbar=se)'',
        Call ''margins'' ''_ = plt.margins(x=0.0, y=0.1)'',
        Call ''xlim'' ''_ = plt.xlim(-0.2, 0.8)'',
        Call ''axvline'' ''_ = plt.axvline(0.0, color=black, linestyle=--)'',
        Call ''axhline'' ''_ = plt.axhline(0.0, color=black, linestyle=--)'',
        Call ''xlabel'' ''_ = plt.xlabel(Time (s))'',
        Call ''ylabel'' ''_ = plt.ylabel(PO8 amplitude (uV))'']),
     ([OutputScroll],
       [Simple ''config'']),
     ([SkipExecution],
       [Simple ''...''])]"

definition statistics_part_005 :: notebook where
  "statistics_part_005 =
    [([], []),
     ([],
       [Simple ''import numpy as np'',
        Simple ''import seaborn as sns'',
        Simple ''from pipeline import group_pipeline'',
        Simple ''from pipeline.datasets import get_erpcore'']),
     ([OutputScroll],
       [Call ''get_erpcore'' ''files_dict = get_erpcore(N170, participants=10, path=data)'',
        Call ''group_pipeline'' ''trials, evokeds, config = group_pipeline(raw_files=files_dict[raw_files], log_files=files_dict[log_files], output_dir=output, montage=biosemi64, ica_method=fastica, ica_n_components=15, triggers=range(1, 81), skip_log_conditions={value: range(81, 203)}, components={name: N170, tmin: 0.110, tmax: 0.150, roi: [PO8]}, average_by={face: value <= 40, car: value > 40})'']),
     ([],
       [Simple ''trials'']),
     ([],
       [Call ''where'' ''trials[condition] = np.where(trials[value] <= 40, face, car)'',
        Simple ''trials'']),
     ([],
       [Call ''violinplot'' ''_ = sns.violinplot(data=trials, y=N170, hue=condition, inner=quart, split=True, fill=False)'']),
     ([],
       [Call ''reset_index'' ''trials_ave = trials[[participant_id, condition, N170]]. groupby([participant_id, condition]). mean(). reset_index()'',
        Simple ''trials_ave'']),
     ([],
       [Magic ''%load_ext rpy2.ipython'']),
     ([],
       [Magic ''%%R -i trials_ave'']),
     ([],
       [Call ''pivot'' ''trials_ave_wide = trials_ave.pivot(index=participant_id, columns=condition, values=N170)'',
        Simple ''trials_ave_wide[diff] = trials_ave_wide[car] - trials_ave_wide[face]'',
        Simple ''trials_ave_wide'']),
     ([],
       [Magic ''%%R -i trials_ave_wide'']),
     ([],
       [Magic ''%%R -i trials_ave'']),
     ([],
       [Magic ''%%R -i trials'']),
     ([],
       [Magic ''%%R -i trials'']),
     ([SkipExecution],
       [Simple ''...''])]"

definition chapter_notebooks :: "notebook list" where
  "chapter_notebooks =
     [python_ipynb, python_part_007, preprocessing_part_002, preprocessing_part_004,
      epoching_ipynb_first, epoching_ipynb_second, averaging_ipynb, averaging_part_000,
      pipeline_part_003, statistics_part_005]"

section \<open>The \<open>event_id\<close> loop of the epoching chapter\<close>

text \<open>
  The first notebook of the epoching chapter names the 80 triggers in a loop with a
  branch:
  \<^verbatim>\<open>
  event_id = {}
  for trigger in range(1, 81):
      if trigger <= 40:
          event_id[f'face/{trigger}'] = trigger
      else:
          event_id[f'car/{trigger}'] = trigger
  \<close>
  The dictionary is a map; the key \<open>f'face/{trigger}'\<close> is kept as the pair of its label
  and its number.
\<close>

type_synonym event_ids = "string \<times> nat \<rightharpoonup> nat"

fun event_id_loop :: "nat list \<Rightarrow> event_ids \<Rightarrow> event_ids" where
  "event_id_loop [] event_id = event_id"
| "event_id_loop (trigger # triggers) event_id =
     event_id_loop triggers
       (if trigger \<le> 40 then event_id((''face'', trigger) \<mapsto> trigger)
        else event_id((''car'', trigger) \<mapsto> trigger))"

definition event_id_cell :: event_ids where
  "event_id_cell = event_id_loop [1..<81] Map.empty"

section \<open>Item assignment in the Python chapter\<close>

text \<open>
  The Python chapter assigns to an element of a list and then, in the one cell tagged
  \<open>raises-exception\<close>, to an element of a tuple:
  \<^verbatim>\<open>
  my_var = [1, 2, 3]
  my_var[2] = 'Hooray!'

  my_var = (1, 2, 3)
  my_var[2] = 'Hooray!'
  \<close>
  "A tuple works like a list, but cannot be changed after it has been created".
  The values of these cells are integers, strings, lists and tuples; the variables of
  the notebook are a namespace. No two names of these cells share a list, so a list is
  stored with the name it is assigned to.
\<close>

datatype pyval = PyInt int | PyStr string | PyList "pyval list" | PyTuple "pyval list"

type_synonym namespace = "string \<rightharpoonup> pyval"

text \<open>
  The position an index of a list of \<open>n\<close> elements stands for: \<open>0\<close> to \<open>n - 1\<close> from the
  front, \<open>-1\<close> to \<open>-n\<close> from the back, and none outside.
\<close>

definition position :: "nat \<Rightarrow> int \<Rightarrow> nat option" where
  "position n i =
     (if 0 \<le> i \<and> i < int n then Some (nat i)
      else if - int n \<le> i \<and> i < 0 then Some (nat (int n + i))
      else None)"

text \<open>
  \<open>obj[i] = v\<close>: a list is updated at the position of the index and raises \<open>IndexError\<close>
  when there is none; every other value of these cells does not support item
  assignment and raises \<open>TypeError\<close>.
\<close>

definition setitem :: "pyval \<Rightarrow> int \<Rightarrow> pyval \<Rightarrow> error + pyval" where
  "setitem obj i v =
     (case obj of
        PyList xs \<Rightarrow>
          (case position (length xs) i of
             None \<Rightarrow> Inl IndexError
           | Some k \<Rightarrow> Inr (PyList (xs[k := v])))
      | PyTuple xs \<Rightarrow> Inl TypeError
      | PyInt n \<Rightarrow> Inl TypeError
      | PyStr text \<Rightarrow> Inl TypeError)"

text \<open>The statements \<open>name = v\<close> and \<open>name[i] = v\<close>; an exception leaves the namespace as it was.\<close>

definition assign :: "string \<Rightarrow> pyval \<Rightarrow> namespace \<Rightarrow> error option \<times> namespace" where
  "assign name v ns = (None, ns(name \<mapsto> v))"

definition assign_item ::
  "string \<Rightarrow> int \<Rightarrow> pyval \<Rightarrow> namespace \<Rightarrow> error option \<times> namespace"
where
  "assign_item name i v ns =
     (case ns name of
        None \<Rightarrow> (Some NameError, ns)
      | Some obj \<Rightarrow>
          (case setitem obj i v of
             Inl e \<Rightarrow> (Some e, ns)
           | Inr obj' \<Rightarrow> (None, ns(name \<mapsto> obj'))))"

text \<open>Statements in sequence: the first exception ends the run.\<close>

fun run :: "(namespace \<Rightarrow> error option \<times> namespace) list \<Rightarrow> namespace \<Rightarrow> error option \<times> namespace"
where
  "run [] ns = (None, ns)"
| "run (s # ss) ns = (case s ns of (Some e, ns') \<Rightarrow> (Some e, ns') | (None, ns') \<Rightarrow> run ss ns')"

section \<open>Properties of the weighted combination\<close>

lemma shape_ok_length: "shape_ok nc nt m \<Longrightarrow> length m = nc"
  by (metis shape_ok_def length_map length_replicate)

lemma shape_ok_row: "shape_ok nc nt m \<Longrightarrow> c < nc \<Longrightarrow> length (m ! c) = nt"
  by (metis shape_ok_def length_map length_replicate nth_map nth_replicate)

lemma shape_ok_same: "shape_ok nc nt a \<Longrightarrow> shape_ok nc nt b \<Longrightarrow> same_shape a b"
  by (simp add: shape_ok_def same_shape_def)

lemma shape_ok_scale: "shape_ok nc nt (scale w m) = shape_ok nc nt m"
  by (simp add: shape_ok_def scale_def comp_def)

lemma scale_nth: "c < length m \<Longrightarrow> t < length (m ! c) \<Longrightarrow> scale w m ! c ! t = w * m ! c ! t"
  by (simp add: scale_def)

lemma shape_ok_madd: "shape_ok nc nt a \<Longrightarrow> shape_ok nc nt b \<Longrightarrow> shape_ok nc nt (madd a b)"
  unfolding shape_ok_def madd_def
  apply (rule nth_equalityI)
   apply (metis length_map length_replicate length_zip min.idem)
  apply (simp)
  by (metis length_map length_replicate nth_map nth_replicate min.idem)

lemma madd_nth:
  "shape_ok nc nt a \<Longrightarrow> shape_ok nc nt b \<Longrightarrow> c < nc \<Longrightarrow> t < nt \<Longrightarrow>
   madd a b ! c ! t = a ! c ! t + b ! c ! t"
  by (simp add: madd_def shape_ok_length shape_ok_row)

lemma foldl_madd_shape:
  "shape_ok nc nt m \<Longrightarrow> list_all (shape_ok nc nt) ms \<Longrightarrow> shape_ok nc nt (foldl madd m ms)"
  by (induction ms arbitrary: m) (simp_all add: shape_ok_madd)

lemma foldl_madd_nth:
  "shape_ok nc nt m \<Longrightarrow> list_all (shape_ok nc nt) ms \<Longrightarrow> c < nc \<Longrightarrow> t < nt \<Longrightarrow>
   foldl madd m ms ! c ! t = m ! c ! t + (\<Sum>x\<leftarrow>ms. x ! c ! t)"
  by (induction ms arbitrary: m) (simp_all add: shape_ok_madd madd_nth)


lemma map2_scale_replicate:
  "map2 scale (replicate (length es) w) es = map (scale w) es"
  by (induction es) simp_all

lemma scale_entry:
  assumes "shape_ok nc nt m" and "c < nc" and "t < nt"
  shows "scale w m ! c ! t = w * m ! c ! t"
proof -
  have "c < length m" and "t < length (m ! c)"
    using assms by (simp_all add: shape_ok_length [OF assms(1)] shape_ok_row [OF assms(1)])
  then show ?thesis by (rule scale_nth)
qed

lemma sum_scaled_entries:
  "list_all (shape_ok nc nt) es \<Longrightarrow> c < nc \<Longrightarrow> t < nt \<Longrightarrow>
   (\<Sum>x\<leftarrow>es. scale w x ! c ! t) = w * (\<Sum>x\<leftarrow>es. x ! c ! t)"
proof (induction es)
  case Nil
  show ?case by simp
next
  case (Cons e es)
  then have "scale w e ! c ! t = w * e ! c ! t"
    by (simp add: scale_entry [of nc nt])
  with Cons show ?case by (simp add: algebra_simps)
qed

lemma list_all_same_shape:
  "shape_ok nc nt e \<Longrightarrow> list_all (shape_ok nc nt) es \<Longrightarrow> list_all (same_shape e) es"
  by (induction es) (simp_all add: shape_ok_same)

text \<open>
  Claim C2. Combining two averaged summaries \<open>a\<close> and \<open>b\<close> of the same channels and
  timepoints with the weights \<open>[1, -1]\<close> succeeds, and the result holds, at every
  channel and timepoint, the value of \<open>a\<close> minus the value of \<open>b\<close>: the difference wave.
\<close>

theorem difference_wave:
  assumes "shape_ok nc nt a" and "shape_ok nc nt b"
  shows "\<exists>d. combine_evoked [a, b] (Weights [1, - 1]) = Inr d \<and> shape_ok nc nt d \<and>
             (\<forall>c<nc. \<forall>t<nt. d ! c ! t = a ! c ! t - b ! c ! t)"
proof -
  let ?d = "madd (scale 1 a) (scale (- 1) b)"
  have sa: "shape_ok nc nt (scale 1 a)" and sb: "shape_ok nc nt (scale (- 1) b)"
    using assms by (simp_all add: shape_ok_scale)
  have "same_shape a a" and "same_shape a b"
    using assms by (simp_all add: shape_ok_same)
  then have run: "combine_evoked [a, b] (Weights [1, - 1]) = Inr ?d"
    by (simp add: combine_evoked_def resolve_weights_def)
  have shape: "shape_ok nc nt ?d"
    using sa sb by (rule shape_ok_madd)
  have entry: "?d ! c ! t = a ! c ! t - b ! c ! t" if "c < nc" and "t < nt" for c t
  proof -
    have "?d ! c ! t = scale 1 a ! c ! t + scale (- 1) b ! c ! t"
      using sa sb that by (rule madd_nth)
    also have "\<dots> = a ! c ! t - b ! c ! t"
      using assms that by (simp add: scale_entry [of nc nt])
    finally show ?thesis .
  qed
  from run shape entry show ?thesis by blast
qed

theorem difference_wave_witness:
  "shape_ok 2 2 [[5, 7], [1, 2]] \<and> shape_ok 2 2 [[1, 3], [4, 2]] \<and>
   combine_evoked [[[5, 7], [1, 2]], [[1, 3], [4, 2]]] (Weights [1, - 1]) = Inr [[4, 4], [- 3, 0]]"
proof -
  have a: "shape_ok 2 2 [[5, 7], [1, 2]]" and b: "shape_ok 2 2 [[1, 3], [4, 2]]"
    by (simp_all add: shape_ok_def numeral_2_eq_2)
  obtain d where run: "combine_evoked [[[5, 7], [1, 2]], [[1, 3], [4, 2]]] (Weights [1, - 1]) = Inr d"
    and shape: "shape_ok 2 2 d"
    and entry: "\<forall>c<2. \<forall>t<2. d ! c ! t = [[5, 7], [1, 2]] ! c ! t - [[1, 3], [4, 2]] ! c ! t"
    using difference_wave [OF a b] by blast
  have "d = [[4, 4], [- 3, 0]]"
  proof (rule nth_equalityI)
    show "length d = length [[4, 4], [- 3, 0::real]]"
      using shape_ok_length [OF shape] by simp
  next
    fix c assume "c < length d"
    then have c: "c < 2" using shape_ok_length [OF shape] by simp
    show "d ! c = [[4, 4], [- 3, 0]] ! c"
    proof (rule nth_equalityI)
      show "length (d ! c) = length ([[4, 4], [- 3, 0::real]] ! c)"
        using shape_ok_row [OF shape c] c by (auto simp: less_2_cases_iff)
    next
      fix t assume "t < length (d ! c)"
      then have t: "t < 2" using shape_ok_row [OF shape c] by simp
      show "d ! c ! t = [[4, 4], [- 3, 0]] ! c ! t"
        using entry c t by (auto simp: less_2_cases_iff)
    qed
  qed
  with run a b show ?thesis by simp
qed

text \<open>
  Claim C3. Combining a non-empty list of \<open>N\<close> averaged summaries of the same channels and
  timepoints with \<open>weights='equal'\<close> succeeds, and the result holds, at every channel and
  timepoint, the arithmetic mean of the \<open>N\<close> summaries' values there: the grand average.
\<close>

theorem grand_average:
  assumes "evokeds \<noteq> []" and "list_all (shape_ok nc nt) evokeds"
  shows "\<exists>g. combine_evoked evokeds Equal = Inr g \<and> shape_ok nc nt g \<and>
             (\<forall>c<nc. \<forall>t<nt. g ! c ! t = (\<Sum>e\<leftarrow>evokeds. e ! c ! t) / real (length evokeds))"
proof -
  obtain e es where split: "evokeds = e # es"
    using assms(1) by (cases evokeds) auto
  define w where "w = 1 / real (length evokeds)"
  let ?g = "foldl madd (scale w e) (map (scale w) es)"
  have e_ok: "shape_ok nc nt e" and es_ok: "list_all (shape_ok nc nt) es"
    using assms(2) split by simp_all
  have same: "list_all (same_shape (hd evokeds)) evokeds"
    using e_ok es_ok split by (simp add: list_all_same_shape shape_ok_same)
  have "map2 scale (replicate (length evokeds) w) evokeds = map (scale w) evokeds"
    by (rule map2_scale_replicate)
  then have run: "combine_evoked evokeds Equal = Inr ?g"
    using assms(1) same by (simp add: combine_evoked_def resolve_weights_def w_def split)
  have se: "shape_ok nc nt (scale w e)"
    using e_ok by (simp add: shape_ok_scale)
  have ses: "list_all (shape_ok nc nt) (map (scale w) es)"
    using es_ok by (induction es) (simp_all add: shape_ok_scale)
  have shape: "shape_ok nc nt ?g"
    using se ses by (rule foldl_madd_shape)
  have entry: "?g ! c ! t = (\<Sum>x\<leftarrow>evokeds. x ! c ! t) / real (length evokeds)"
    if "c < nc" and "t < nt" for c t
  proof -
    have "?g ! c ! t = scale w e ! c ! t + (\<Sum>x\<leftarrow>map (scale w) es. x ! c ! t)"
      using se ses that by (rule foldl_madd_nth)
    also have "\<dots> = w * e ! c ! t + w * (\<Sum>x\<leftarrow>es. x ! c ! t)"
      using e_ok es_ok that
      by (simp add: scale_entry [of nc nt] sum_scaled_entries [of nc nt] comp_def)
    also have "\<dots> = (\<Sum>x\<leftarrow>evokeds. x ! c ! t) / real (length evokeds)"
      by (simp add: split w_def algebra_simps add_divide_distrib)
    finally show ?thesis .
  qed
  from run shape entry show ?thesis by blast
qed

theorem grand_average_witness:
  "[[[1, 2]], [[3, 6]]] \<noteq> ([] :: matrix list) \<and> list_all (shape_ok 1 2) [[[1, 2]], [[3, 6]]] \<and>
   combine_evoked [[[1, 2]], [[3, 6]]] Equal = Inr [[2, 4]]"
proof -
  have ne: "[[[1, 2]], [[3, 6]]] \<noteq> ([] :: matrix list)"
    by simp
  have ok: "list_all (shape_ok 1 2) [[[1, 2]], [[3, 6]]]"
    by (simp add: shape_ok_def numeral_2_eq_2)
  obtain g where run: "combine_evoked [[[1, 2]], [[3, 6]]] Equal = Inr g"
    and shape: "shape_ok 1 2 g"
    and entry: "\<forall>c<1. \<forall>t<2. g ! c ! t
        = (\<Sum>e\<leftarrow>[[[1, 2]], [[3, 6]]]. e ! c ! t) / real (length [[[1, 2]], [[3, 6 :: real]]])"
    using grand_average [OF ne ok] by blast
  have "g = [[2, 4]]"
  proof (rule nth_equalityI)
    show "length g = length [[2, 4 :: real]]"
      using shape_ok_length [OF shape] by simp
  next
    fix c assume "c < length g"
    then have c: "c < 1" using shape_ok_length [OF shape] by simp
    show "g ! c = [[2, 4]] ! c"
    proof (rule nth_equalityI)
      show "length (g ! c) = length ([[2, 4 :: real]] ! c)"
        using shape_ok_row [OF shape c] c by simp
    next
      fix t assume "t < length (g ! c)"
      then have t: "t < 2" using shape_ok_row [OF shape c] by simp
      show "g ! c ! t = [[2, 4]] ! c ! t"
        using entry c t by (auto simp: less_2_cases_iff)
    qed
  qed
  with run ne ok show ?thesis by simp
qed

section \<open>Properties of the baseline correction\<close>

lemma baseline_samples_shift:
  "baseline_samples baseline ts (map (\<lambda>x. x - m) row)
     = map (\<lambda>x. x - m) (baseline_samples baseline ts row)"
  by (simp add: baseline_samples_def zip_map2 filter_map comp_def case_prod_beta)

lemma sum_list_shift: "sum_list (map (\<lambda>x. x - m) xs) = sum_list xs - real (length xs) * m"
  for m :: real
  by (induction xs) (simp_all add: algebra_simps)

lemma mean_shift: "xs \<noteq> [] \<Longrightarrow> mean (map (\<lambda>x. x - m) xs) = mean xs - m"
  by (simp add: mean_def sum_list_shift diff_divide_distrib)

lemma baseline_samples_nonempty:
  assumes "length row = length ts" and "list_ex (in_baseline baseline) ts"
  shows "baseline_samples baseline ts row \<noteq> []"
proof -
  obtain t where t: "t \<in> set ts" "in_baseline baseline t"
    using assms(2) by (auto simp: list_ex_iff)
  then obtain i where i: "i < length ts" "ts ! i = t"
    by (auto simp: in_set_conv_nth)
  then have "(t, row ! i) \<in> set (zip ts row)"
    using assms(1) by (auto simp: set_zip)
  with t(2) have "(t, row ! i) \<in> set (filter (\<lambda>p. in_baseline baseline (fst p)) (zip ts row))"
    by simp
  then have "filter (\<lambda>p. in_baseline baseline (fst p)) (zip ts row) \<noteq> []"
    by (metis empty_iff list.set(1))
  then show ?thesis
    by (simp add: baseline_samples_def)
qed

lemma rescale_zero_mean:
  assumes "length row = length ts" and "list_ex (in_baseline baseline) ts"
  shows "mean (baseline_samples baseline ts (rescale baseline ts row)) = 0"
  using baseline_samples_nonempty [OF assms]
  by (simp add: rescale_def baseline_samples_shift mean_shift)

lemma rescale_idempotent:
  assumes "length row = length ts" and "list_ex (in_baseline baseline) ts"
  shows "rescale baseline ts (rescale baseline ts row) = rescale baseline ts row"
proof -
  have "mean (baseline_samples baseline ts (rescale baseline ts row)) = 0"
    using assms by (rule rescale_zero_mean)
  then show ?thesis
    by (simp add: rescale_def [of baseline ts "rescale baseline ts row"])
qed

lemma rescale_nth:
  "t < length row \<Longrightarrow>
   rescale baseline ts row ! t = row ! t - mean (baseline_samples baseline ts row)"
  by (simp add: rescale_def)

lemma length_rescale: "length (rescale baseline ts row) = length row"
  by (simp add: rescale_def)

text \<open>
  Claim C10. For well-shaped epochs and a baseline interval that holds a sample time
  (as \<open>(-0.2, 0.0)\<close> does for epochs cut from \<open>tmin=-0.2\<close>), baseline correction succeeds
  and leaves the sample times and the shape as they were; in every window and channel it
  subtracts the channel's mean over the baseline samples from every timepoint, so that
  the mean of the channel over the baseline samples is zero afterwards; and applying it
  again with the same interval changes nothing.
\<close>

theorem baseline_correction:
  assumes "well_shaped eps" and "list_ex (in_baseline baseline) (sample_times eps)"
  shows "\<exists>eps'. apply_baseline baseline eps = Inr eps' \<and>
           sample_times eps' = sample_times eps \<and>
           length (windows eps') = length (windows eps) \<and>
           (\<forall>w<length (windows eps). length (windows eps' ! w) = length (windows eps ! w) \<and>
              (\<forall>c<length (windows eps ! w).
                 (\<forall>t<length (sample_times eps).
                    windows eps' ! w ! c ! t
                      = windows eps ! w ! c ! t
                          - mean (baseline_samples baseline (sample_times eps) (windows eps ! w ! c))) \<and>
                 mean (baseline_samples baseline (sample_times eps) (windows eps' ! w ! c)) = 0)) \<and>
           apply_baseline baseline eps' = Inr eps'"
proof -
  let ?ts = "sample_times eps"
  let ?eps' = "eps\<lparr>windows := map (map (rescale baseline ?ts)) (windows eps)\<rparr>"
  have run: "apply_baseline baseline eps = Inr ?eps'"
    using assms(2) by (simp add: apply_baseline_def)
  have row: "length (windows eps ! w ! c) = length ?ts"
    if "w < length (windows eps)" and "c < length (windows eps ! w)" for w c
    using assms(1) that by (simp add: well_shaped_def list_all_length)
  have entry: "windows ?eps' ! w ! c ! t
      = windows eps ! w ! c ! t - mean (baseline_samples baseline ?ts (windows eps ! w ! c))"
    if "w < length (windows eps)" and "c < length (windows eps ! w)" and "t < length ?ts" for w c t
    using that row [OF that(1,2)] by (simp add: rescale_nth)
  have zero: "mean (baseline_samples baseline ?ts (windows ?eps' ! w ! c)) = 0"
    if "w < length (windows eps)" and "c < length (windows eps ! w)" for w c
    using that rescale_zero_mean [OF row [OF that] assms(2)] by simp
  have "map (map (rescale baseline ?ts)) (map (map (rescale baseline ?ts)) (windows eps))
      = map (map (rescale baseline ?ts)) (windows eps)"
  proof -
    have "rescale baseline ?ts (rescale baseline ?ts r) = rescale baseline ?ts r"
      if "m \<in> set (windows eps)" and "r \<in> set m" for m r
    proof -
      have "length r = length ?ts"
        using assms(1) that by (auto simp: well_shaped_def list_all_iff)
      then show ?thesis using assms(2) by (rule rescale_idempotent)
    qed
    then show ?thesis by (simp add: comp_def)
  qed
  then have again: "apply_baseline baseline ?eps' = Inr ?eps'"
    using assms(2) by (simp add: apply_baseline_def)
  show ?thesis
    by (rule exI [of _ ?eps']) (use run entry zero again in simp)
qed

theorem baseline_correction_witness:
  "well_shaped \<lparr>sample_times = [- 0.2, - 0.1, 0, 0.1], windows = [[[1, 2, 3, 10]]]\<rparr> \<and>
   list_ex (in_baseline (- 0.2, 0)) [- 0.2, - 0.1, 0, 0.1] \<and>
   apply_baseline (- 0.2, 0) \<lparr>sample_times = [- 0.2, - 0.1, 0, 0.1], windows = [[[1, 2, 3, 10]]]\<rparr>
     = Inr \<lparr>sample_times = [- 0.2, - 0.1, 0, 0.1], windows = [[[- 1, 0, 1, 8]]]\<rparr> \<and>
   apply_baseline (- 0.2, 0) \<lparr>sample_times = [- 0.2, - 0.1, 0, 0.1], windows = [[[- 1, 0, 1, 8]]]\<rparr>
     = Inr \<lparr>sample_times = [- 0.2, - 0.1, 0, 0.1], windows = [[[- 1, 0, 1, 8]]]\<rparr>"
proof -
  let ?eps = "\<lparr>sample_times = [- 0.2, - 0.1, 0, 0.1 :: real], windows = [[[1, 2, 3, 10 :: real]]]\<rparr>"
  have shaped: "well_shaped ?eps"
    by (simp add: well_shaped_def)
  have covered: "list_ex (in_baseline (- 0.2, 0)) (sample_times ?eps)"
    by (simp add: in_baseline_def)
  obtain eps' where first: "apply_baseline (- 0.2, 0) ?eps = Inr eps'"
    and again: "apply_baseline (- 0.2, 0) eps' = Inr eps'"
    using baseline_correction [OF shaped covered] by blast
  have "apply_baseline (- 0.2, 0) ?eps
      = Inr \<lparr>sample_times = [- 0.2, - 0.1, 0, 0.1], windows = [[[- 1, 0, 1, 8]]]\<rparr>"
    by (simp add: apply_baseline_def in_baseline_def rescale_def baseline_samples_def mean_def)
  with first again shaped covered show ?thesis by simp
qed

section \<open>Properties of the per-participant loop\<close>

lemma same_shape_lengths:
  assumes "same_shape a b"
  shows "length b = length a" and "c < length a \<Longrightarrow> length (b ! c) = length (a ! c)"
proof -
  have eq: "map length a = map length b"
    using assms by (simp add: same_shape_def)
  show len: "length b = length a"
    using arg_cong [OF eq, of length] by simp
  show "length (b ! c) = length (a ! c)" if "c < length a"
    using arg_cong [OF eq, of "\<lambda>xs. xs ! c"] that len by simp
qed

lemma same_shape_madd_nth:
  assumes "same_shape a b" and "c < length a" and "t < length (a ! c)"
  shows "madd a b ! c ! t = a ! c ! t + b ! c ! t"
  using assms same_shape_lengths [OF assms(1)] by (simp add: madd_def)

lemma same_shape_madd:
  assumes "same_shape a b"
  shows "same_shape a (madd a b)"
  unfolding same_shape_def
proof (rule nth_equalityI)
  show "length (map length a) = length (map length (madd a b))"
    using same_shape_lengths(1) [OF assms] by (simp add: madd_def)
next
  fix c assume "c < length (map length a)"
  then show "map length a ! c = map length (madd a b) ! c"
    using same_shape_lengths [OF assms] by (simp add: madd_def)
qed

lemma same_shape_scale: "same_shape a (scale w a)"
  by (simp add: same_shape_def scale_def comp_def)


lemma combine_pair:
  assumes "combine_evoked [f, c] (Weights [1, - 1]) = Inr d"
  shows "same_shape f c" and "d = madd (scale 1 f) (scale (- 1) c)"
  using assms by (simp_all add: combine_evoked_def resolve_weights_def split: if_splits)

lemma pair_difference:
  assumes "combine_evoked [f, c] (Weights [1, - 1]) = Inr d"
  shows "same_shape f d"
    and "i < length d \<Longrightarrow> t < length (d ! i) \<Longrightarrow> d ! i ! t = f ! i ! t - c ! i ! t"
proof -
  have fc: "same_shape f c" and d: "d = madd (scale 1 f) (scale (- 1) c)"
    using combine_pair [OF assms] by simp_all
  have scaled: "same_shape (scale 1 f) (scale (- 1) c)"
    using fc by (simp add: same_shape_def scale_def comp_def)
  have "same_shape (scale 1 f) d"
    unfolding d using scaled by (rule same_shape_madd)
  then show fd: "same_shape f d"
    by (simp add: same_shape_def scale_def comp_def)
  show "d ! i ! t = f ! i ! t - c ! i ! t" if "i < length d" and "t < length (d ! i)"
  proof -
    have i: "i < length f"
      using same_shape_lengths(1) [OF fd] that by simp
    have t: "t < length (f ! i)"
      using same_shape_lengths(2) [OF fd i] that by simp
    have ic: "i < length c" and tc: "t < length (c ! i)"
      using same_shape_lengths [OF fc] i t by simp_all
    have "d ! i ! t = scale 1 f ! i ! t + scale (- 1) c ! i ! t"
      unfolding d using scaled i t by (intro same_shape_madd_nth) (simp_all add: scale_def)
    then show ?thesis
      using i t ic tc by (simp add: scale_nth)
  qed
qed

lemma loop_body_success:
  assumes "fst (loop_body lib raw_file log_file acc0) = None"
  shows "\<exists>f c d. combine_evoked [f, c] (Weights [1, - 1]) = Inr d \<and>
           (\<forall>acc. loop_body lib raw_file log_file acc =
              (None, acc\<lparr>evokeds_face := evokeds_face acc @ [f],
                          evokeds_car := evokeds_car acc @ [c],
                          evokeds_diff := evokeds_diff acc @ [d]\<rparr>))"
proof -
  obtain raw epochs f c d where steps:
    "preprocessing lib raw_file = Inr raw" "epoching lib raw log_file = Inr epochs"
    "average lib epochs ''face'' = Inr f" "average lib epochs ''car'' = Inr c"
    "combine_evoked [f, c] (Weights [1, - 1]) = Inr d"
    using assms unfolding loop_body_def
    by (auto simp: Let_def split: sum.splits)
  have "loop_body lib raw_file log_file acc =
          (None, acc\<lparr>evokeds_face := evokeds_face acc @ [f],
                      evokeds_car := evokeds_car acc @ [c],
                      evokeds_diff := evokeds_diff acc @ [d]\<rparr>)" for acc
    by (simp add: loop_body_def steps)
  with steps(5) show ?thesis by blast
qed

lemma pipeline_loop_success:
  assumes "\<forall>(raw_file, log_file) \<in> set pairs. fst (loop_body lib raw_file log_file no_evokeds) = None"
  shows "\<exists>fs cs ds. length fs = length pairs \<and> length cs = length pairs \<and> length ds = length pairs \<and>
           pipeline_loop lib pairs acc =
             (None, acc\<lparr>evokeds_face := evokeds_face acc @ fs,
                         evokeds_car := evokeds_car acc @ cs,
                         evokeds_diff := evokeds_diff acc @ ds\<rparr>) \<and>
           (\<forall>i<length pairs.
              loop_body lib (fst (pairs ! i)) (snd (pairs ! i)) no_evokeds =
                (None, \<lparr>evokeds_face = [fs ! i], evokeds_car = [cs ! i], evokeds_diff = [ds ! i]\<rparr>))"
  using assms
proof (induction pairs arbitrary: acc)
  case Nil
  show ?case by simp
next
  case (Cons p pairs)
  obtain raw_file log_file where p: "p = (raw_file, log_file)"
    by (cases p)
  have "fst (loop_body lib raw_file log_file no_evokeds) = None"
    using Cons.prems p by simp
  then obtain f c d where
    body: "\<And>acc. loop_body lib raw_file log_file acc =
              (None, acc\<lparr>evokeds_face := evokeds_face acc @ [f],
                          evokeds_car := evokeds_car acc @ [c],
                          evokeds_diff := evokeds_diff acc @ [d]\<rparr>)"
    using loop_body_success [of lib raw_file log_file no_evokeds] by blast
  let ?acc1 = "acc\<lparr>evokeds_face := evokeds_face acc @ [f],
                     evokeds_car := evokeds_car acc @ [c],
                     evokeds_diff := evokeds_diff acc @ [d]\<rparr>"
  have rest: "\<forall>(raw_file, log_file) \<in> set pairs. fst (loop_body lib raw_file log_file no_evokeds) = None"
    using Cons.prems by simp
  obtain fs cs ds where len: "length fs = length pairs" "length cs = length pairs" "length ds = length pairs"
    and run: "pipeline_loop lib pairs ?acc1 =
             (None, ?acc1\<lparr>evokeds_face := evokeds_face ?acc1 @ fs,
                         evokeds_car := evokeds_car ?acc1 @ cs,
                         evokeds_diff := evokeds_diff ?acc1 @ ds\<rparr>)"
    and each: "\<forall>i<length pairs.
              loop_body lib (fst (pairs ! i)) (snd (pairs ! i)) no_evokeds =
                (None, \<lparr>evokeds_face = [fs ! i], evokeds_car = [cs ! i], evokeds_diff = [ds ! i]\<rparr>)"
    using Cons.IH [OF rest, of ?acc1] by blast
  have first: "loop_body lib raw_file log_file no_evokeds =
      (None, \<lparr>evokeds_face = [f], evokeds_car = [c], evokeds_diff = [d]\<rparr>)"
    by (simp add: body no_evokeds_def)
  have each': "\<forall>i<length (p # pairs).
              loop_body lib (fst ((p # pairs) ! i)) (snd ((p # pairs) ! i)) no_evokeds =
                (None, \<lparr>evokeds_face = [(f # fs) ! i], evokeds_car = [(c # cs) ! i],
                        evokeds_diff = [(d # ds) ! i]\<rparr>)"
  proof (intro allI impI)
    fix i assume "i < length (p # pairs)"
    then show "loop_body lib (fst ((p # pairs) ! i)) (snd ((p # pairs) ! i)) no_evokeds =
                (None, \<lparr>evokeds_face = [(f # fs) ! i], evokeds_car = [(c # cs) ! i],
                        evokeds_diff = [(d # ds) ! i]\<rparr>)"
      using first each p by (cases i) simp_all
  qed
  have "pipeline_loop lib (p # pairs) acc =
             (None, acc\<lparr>evokeds_face := evokeds_face acc @ (f # fs),
                         evokeds_car := evokeds_car acc @ (c # cs),
                         evokeds_diff := evokeds_diff acc @ (d # ds)\<rparr>)"
    by (simp add: p body run)
  with len each' show ?case
    by (intro exI [of _ "f # fs"] exI [of _ "c # cs"] exI [of _ "d # ds"]) simp
qed


lemma loop_body_single:
  assumes "loop_body lib raw_file log_file no_evokeds =
             (None, \<lparr>evokeds_face = [f], evokeds_car = [c], evokeds_diff = [d]\<rparr>)"
  shows "combine_evoked [f, c] (Weights [1, - 1]) = Inr d"
proof -
  have "fst (loop_body lib raw_file log_file no_evokeds) = None"
    using assms by simp
  then obtain f' c' d' where comb: "combine_evoked [f', c'] (Weights [1, - 1]) = Inr d'"
    and body: "loop_body lib raw_file log_file no_evokeds =
          (None, no_evokeds\<lparr>evokeds_face := evokeds_face no_evokeds @ [f'],
                      evokeds_car := evokeds_car no_evokeds @ [c'],
                      evokeds_diff := evokeds_diff no_evokeds @ [d']\<rparr>)"
    using loop_body_success [of lib raw_file log_file no_evokeds] by blast
  from body assms have "f' = f" and "c' = c" and "d' = d"
    by (simp_all add: no_evokeds_def)
  with comb show ?thesis by simp
qed

text \<open>
  Claim C5. When no call raises, the loop makes one pass per (raw file, log file) pair of
  the zipped input and ends without error; each of the three lists then holds one
  element per pair, in input order: the \<open>i\<close>-th elements are what a pass over the \<open>i\<close>-th
  pair alone appends to empty lists, and the \<open>i\<close>-th difference holds, at every channel
  and timepoint, the \<open>i\<close>-th face value minus the \<open>i\<close>-th car value.
\<close>

theorem custom_pipeline_accumulators:
  assumes "\<forall>(raw_file, log_file) \<in> set (zip raw_files log_files).
             fst (loop_body lib raw_file log_file no_evokeds) = None"
  shows "\<exists>acc. custom_pipeline lib raw_files log_files = (None, acc) \<and>
           length (evokeds_face acc) = length (zip raw_files log_files) \<and>
           length (evokeds_car acc) = length (zip raw_files log_files) \<and>
           length (evokeds_diff acc) = length (zip raw_files log_files) \<and>
           (\<forall>i<length (zip raw_files log_files).
              loop_body lib (raw_files ! i) (log_files ! i) no_evokeds =
                (None, \<lparr>evokeds_face = [evokeds_face acc ! i],
                        evokeds_car = [evokeds_car acc ! i],
                        evokeds_diff = [evokeds_diff acc ! i]\<rparr>) \<and>
              same_shape (evokeds_face acc ! i) (evokeds_diff acc ! i) \<and>
              (\<forall>c<length (evokeds_diff acc ! i). \<forall>t<length (evokeds_diff acc ! i ! c).
                 evokeds_diff acc ! i ! c ! t
                   = evokeds_face acc ! i ! c ! t - evokeds_car acc ! i ! c ! t))"
proof -
  let ?pairs = "zip raw_files log_files"
  obtain fs cs ds where len: "length fs = length ?pairs" "length cs = length ?pairs"
      "length ds = length ?pairs"
    and run: "pipeline_loop lib ?pairs no_evokeds =
             (None, no_evokeds\<lparr>evokeds_face := evokeds_face no_evokeds @ fs,
                         evokeds_car := evokeds_car no_evokeds @ cs,
                         evokeds_diff := evokeds_diff no_evokeds @ ds\<rparr>)"
    and each: "\<forall>i<length ?pairs.
              loop_body lib (fst (?pairs ! i)) (snd (?pairs ! i)) no_evokeds =
                (None, \<lparr>evokeds_face = [fs ! i], evokeds_car = [cs ! i], evokeds_diff = [ds ! i]\<rparr>)"
    using pipeline_loop_success [OF assms, of no_evokeds] by blast
  let ?acc = "\<lparr>evokeds_face = fs, evokeds_car = cs, evokeds_diff = ds\<rparr>"
  have result: "custom_pipeline lib raw_files log_files = (None, ?acc)"
    using run by (simp add: custom_pipeline_def no_evokeds_def)
  have item: "loop_body lib (raw_files ! i) (log_files ! i) no_evokeds =
                (None, \<lparr>evokeds_face = [fs ! i], evokeds_car = [cs ! i], evokeds_diff = [ds ! i]\<rparr>)"
    if "i < length ?pairs" for i
    using each that by simp
  have diff: "same_shape (fs ! i) (ds ! i) \<and>
      (\<forall>c<length (ds ! i). \<forall>t<length (ds ! i ! c). ds ! i ! c ! t = fs ! i ! c ! t - cs ! i ! c ! t)"
    if "i < length ?pairs" for i
    using pair_difference [OF loop_body_single [OF item [OF that]]] by blast
  show ?thesis
    using result len item diff by (intro exI [of _ ?acc]) simp
qed

theorem custom_pipeline_accumulators_witness:
  "list_all (\<lambda>(raw_file, log_file).
      fst (loop_body \<lparr>preprocessing = (\<lambda>raw_file. Inr (raw_file + 1)),
                      epoching = (\<lambda>raw log_file. Inr (raw + log_file)),
                      average = (\<lambda>epochs condition.
                        Inr [[real epochs, if condition = ''face'' then 5 else 2]])\<rparr>
            raw_file log_file no_evokeds) = None) (zip [1, 2 :: nat] [10, 20 :: nat]) \<and>
   custom_pipeline \<lparr>preprocessing = (\<lambda>raw_file. Inr (raw_file + 1)),
                      epoching = (\<lambda>raw log_file. Inr (raw + log_file)),
                      average = (\<lambda>epochs condition.
                        Inr [[real epochs, if condition = ''face'' then 5 else 2]])\<rparr>
       [1, 2 :: nat] [10, 20 :: nat]
     = (None, \<lparr>evokeds_face = [[[12, 5]], [[23, 5]]],
               evokeds_car = [[[12, 2]], [[23, 2]]],
               evokeds_diff = [[[0, 3]], [[0, 3]]]\<rparr>)"
proof -
  let ?lib = "\<lparr>preprocessing = (\<lambda>raw_file :: nat. Inr (raw_file + 1) :: error + nat),
                      epoching = (\<lambda>raw log_file :: nat. Inr (raw + log_file) :: error + nat),
                      average = (\<lambda>epochs condition.
                        Inr [[real epochs, if condition = ''face'' then 5 else 2]] :: error + matrix)\<rparr>"
  have hyp: "\<forall>(raw_file, log_file) \<in> set (zip [1, 2 :: nat] [10, 20 :: nat]).
      fst (loop_body ?lib raw_file log_file no_evokeds) = None"
    by (simp add: loop_body_def combine_evoked_def resolve_weights_def same_shape_def)
  obtain acc where run: "custom_pipeline ?lib [1, 2] [10, 20] = (None, acc)"
    using custom_pipeline_accumulators [OF hyp] by blast
  have "custom_pipeline ?lib [1, 2] [10, 20]
     = (None, \<lparr>evokeds_face = [[[12, 5]], [[23, 5]]],
               evokeds_car = [[[12, 2]], [[23, 2]]],
               evokeds_diff = [[[0, 3]], [[0, 3]]]\<rparr>)"
    by (simp add: custom_pipeline_def loop_body_def combine_evoked_def resolve_weights_def
        same_shape_def no_evokeds_def scale_def madd_def)
  with hyp run show ?thesis by (simp add: list_all_iff)
qed

section \<open>Properties of the chapter notebooks\<close>

lemma set_concat_replicate:
  "set (concat (replicate k ys)) = (if k = 0 then {} else set ys)"
  by (induction k) auto

lemma map_concat_replicate:
  "map f (concat (replicate k ys)) = concat (replicate k (map f ys))"
  by (induction k) simp_all

lemma filter_concat_replicate:
  "filter P (concat (replicate k ys)) = concat (replicate k (filter P ys))"
  by (induction k) simp_all

lemma concat_replicate_Nil: "concat (replicate k []) = []"
  by (induction k) simp_all

lemma sorted_concat_replicate:
  "sorted ys \<Longrightarrow> (\<forall>x\<in>set ys. \<forall>y\<in>set ys. x \<le> y) \<Longrightarrow> sorted (concat (replicate k ys))"
  by (induction k) (auto simp: sorted_append set_concat_replicate)

lemma dropWhile_concat_replicate:
  "(\<forall>y\<in>set ys. P y) \<Longrightarrow> dropWhile P (concat (replicate k ys) @ zs) = dropWhile P zs"
  by (rule dropWhile_append2) (auto simp: set_concat_replicate split: if_splits)

lemma dropWhile_replicate:
  "P y \<Longrightarrow> dropWhile P (replicate k y @ zs) = dropWhile P zs"
  by (rule dropWhile_append2) auto

lemmas trace_simps = steps_def run_notebook_def executed_def step_of_def step_table_def
  map_concat_replicate participant_loop_def

lemmas order_simps = recording_order_def in_processing_order_def in_listed_order_def precedes_def
  listed_def holds_def fails_def filter_concat_replicate map_concat_replicate
  concat_replicate_Nil sorted_concat_replicate dropWhile_concat_replicate dropWhile_replicate
  set_concat_replicate sorted_append

lemma run_pipeline_part_003:
  "run_notebook passes pipeline_part_003 =
     Some ([''get_erpcore''] @
       concat (replicate (passes participant_loop)
         [''read_raw'', ''set_bipolar_reference'', ''set_bipolar_reference'',
          ''set_channel_types'', ''drop_channels'', ''set_montage'', ''filter'',
          ''filter'', ''ICA'', ''fit'', ''find_bads_eog'', ''apply'',
          ''set_eeg_reference'', ''read_csv'', ''astype'', ''merge_events'',
          ''merge_events'', ''Epochs'', ''drop_bad'', ''average'', ''append'', ''average'',
          ''append'', ''combine_evoked'', ''append'']) @
       [''combine_evoked'', ''combine_evoked'', ''plot_compare_evokeds'',
        ''combine_evoked'', ''plot'', ''plot_joint'', ''group_pipeline'', ''lineplot'',
        ''lineplot'', ''margins'', ''xlim'', ''axvline'', ''axhline'', ''xlabel'',
        ''ylabel''])"
  by (simp add: run_notebook_def executed_def pipeline_part_003_def participant_loop_def)

lemma steps_python_ipynb:
  "steps passes python_ipynb =
     Some (
       [Other, Other, Other, Other, Other, Other, Other, Other] @
       concat (replicate (passes ''name in names'')
         [Other]) @
       concat (replicate (passes ''name in names'')
         [Other]) @
       [Other, Other, Other, Other, Other, Other, Other, Other, Other, Other, Other])"
  by (simp add: trace_simps python_ipynb_def)

lemma steps_python_part_007:
  "steps passes python_part_007 =
     Some (
       [Other, Other, Other, Other, Other, Other, Other, Other] @
       concat (replicate (passes ''name in names'')
         [Other]) @
       concat (replicate (passes ''name in names'')
         [Other]) @
       [Other, Other, Other, Other, Other, Other, Other, Other, Other, Other, Other, Other])"
  by (simp add: trace_simps python_part_007_def)

lemma steps_preprocessing_part_002:
  "steps passes preprocessing_part_002 =
     Some (
       [Acquire, Construct, Other, Other, Plotting, Construct, Construct, Construct,
        Construct, Construct, Plotting, Filtering, Plotting, Filtering, Plotting,
        Filtering, ICA, ICA, Plotting, ICA, Plotting, ICA, Plotting, Rereference, Plotting])"
  by (simp add: trace_simps preprocessing_part_002_def)

lemma steps_preprocessing_part_004:
  "steps passes preprocessing_part_004 =
     Some (
       [Acquire, Construct, Other, Other, Plotting, Construct, Construct, Construct,
        Construct, Construct, Filtering, Plotting, Filtering, Plotting, Filtering, ICA,
        ICA, Plotting, ICA, Plotting, ICA, Plotting, Rereference, Plotting])"
  by (simp add: trace_simps preprocessing_part_004_def)

lemma steps_epoching_ipynb_first:
  "steps passes epoching_ipynb_first =
     Some (
       [Acquire, Construct] @
       concat (replicate (passes ''eog_name, anode, cathode in zip(eog_names, eog_anodes, eog_cathodes)'')
         [Construct, Construct]) @
       [Construct, Construct, Filtering, Filtering, ICA, ICA, ICA, ICA, Rereference,
        Epoching, Epoching, Other, Plotting, Plotting, Epoching, Plotting, Rejection,
        Plotting])"
  by (simp add: trace_simps epoching_ipynb_first_def)

lemma steps_epoching_ipynb_second:
  "steps passes epoching_ipynb_second =
     Some (
       [Acquire, Construct, Construct, Construct, Construct, Construct, Construct,
        Filtering, Filtering, ICA, ICA, ICA, ICA, Rereference, Epoching, Epoching,
        Epoching, Epoching, Epoching, Epoching, Other, Plotting, Plotting, Epoching,
        Plotting, Rejection, Plotting])"
  by (simp add: trace_simps epoching_ipynb_second_def)

lemma steps_averaging_ipynb:
  "steps passes averaging_ipynb =
     Some (
       [Acquire, Construct] @
       concat (replicate (passes ''eog_name, anode, cathode in zip(eog_names, eog_anodes, eog_cathodes)'')
         [Construct, Construct]) @
       [Construct, Construct, Filtering, Filtering, ICA, ICA, ICA, ICA, Rereference,
        Epoching, Epoching, Epoching, Epoching, Averaging, Other, Plotting, Plotting,
        Averaging, Averaging, Plotting, Combining, Plotting, Plotting, Plotting])"
  by (simp add: trace_simps averaging_ipynb_def)

lemma steps_averaging_part_000:
  "steps passes averaging_part_000 =
     Some (
       [Acquire, Construct, Construct, Construct, Construct, Construct, Construct,
        Filtering, Filtering, ICA, ICA, ICA, ICA, Rereference, Epoching, Epoching,
        Epoching, Epoching, Epoching, Rejection, Averaging, Other, Plotting, Plotting,
        Averaging, Averaging, Plotting, Combining, Plotting, Plotting, Plotting])"
  by (simp add: trace_simps averaging_part_000_def)

lemma steps_pipeline_part_003:
  "steps passes pipeline_part_003 =
     Some (
       [Acquire] @
       concat (replicate (passes participant_loop)
         [Construct, Construct, Construct, Construct, Construct, Construct, Filtering,
          Filtering, ICA, ICA, ICA, ICA, Rereference, Epoching, Epoching, Epoching,
          Epoching, Epoching, Rejection, Averaging, Other, Averaging, Other, Combining,
          Other]) @
       [Combining, Combining, Plotting, Combining, Plotting, Plotting, Packaged, Plotting,
        Plotting, Plotting, Plotting, Plotting, Plotting, Plotting, Plotting])"
  by (simp add: steps_def run_pipeline_part_003 step_of_def step_table_def map_concat_replicate)

lemma steps_statistics_part_005:
  "steps passes statistics_part_005 =
     Some (
       [Acquire, Packaged, Other, Plotting, Other, Other])"
  by (simp add: trace_simps statistics_part_005_def)

lemma recording_order_python_ipynb:
  "holds recording_order (steps passes python_ipynb)"
  by (simp add: steps_python_ipynb order_simps)

lemma listed_order_python_ipynb:
  "holds in_listed_order (steps passes python_ipynb)"
  by (simp add: steps_python_ipynb order_simps)

lemma recording_order_python_part_007:
  "holds recording_order (steps passes python_part_007)"
  by (simp add: steps_python_part_007 order_simps)

lemma listed_order_python_part_007:
  "holds in_listed_order (steps passes python_part_007)"
  by (simp add: steps_python_part_007 order_simps)

lemma recording_order_preprocessing_part_002:
  "holds recording_order (steps passes preprocessing_part_002)"
  by (simp add: steps_preprocessing_part_002 order_simps)

lemma listed_order_preprocessing_part_002:
  "\<not> holds in_listed_order (steps passes preprocessing_part_002)"
  by (simp add: steps_preprocessing_part_002 order_simps)

lemma recording_order_preprocessing_part_004:
  "holds recording_order (steps passes preprocessing_part_004)"
  by (simp add: steps_preprocessing_part_004 order_simps)

lemma listed_order_preprocessing_part_004:
  "\<not> holds in_listed_order (steps passes preprocessing_part_004)"
  by (simp add: steps_preprocessing_part_004 order_simps)

lemma recording_order_epoching_ipynb_first:
  "holds recording_order (steps passes epoching_ipynb_first)"
  by (simp add: steps_epoching_ipynb_first order_simps)

lemma listed_order_epoching_ipynb_first:
  "\<not> holds in_listed_order (steps passes epoching_ipynb_first)"
  by (simp add: steps_epoching_ipynb_first order_simps)

lemma recording_order_epoching_ipynb_second:
  "holds recording_order (steps passes epoching_ipynb_second)"
  by (simp add: steps_epoching_ipynb_second order_simps)

lemma listed_order_epoching_ipynb_second:
  "\<not> holds in_listed_order (steps passes epoching_ipynb_second)"
  by (simp add: steps_epoching_ipynb_second order_simps)

lemma recording_order_averaging_ipynb:
  "holds recording_order (steps passes averaging_ipynb)"
  by (simp add: steps_averaging_ipynb order_simps)

lemma listed_order_averaging_ipynb:
  "\<not> holds in_listed_order (steps passes averaging_ipynb)"
  by (simp add: steps_averaging_ipynb order_simps)

lemma recording_order_averaging_part_000:
  "holds recording_order (steps passes averaging_part_000)"
  by (simp add: steps_averaging_part_000 order_simps)

lemma listed_order_averaging_part_000:
  "\<not> holds in_listed_order (steps passes averaging_part_000)"
  by (simp add: steps_averaging_part_000 order_simps)

lemma recording_order_pipeline_part_003:
  "holds recording_order (steps (participants 1 passes) pipeline_part_003)"
  by (simp add: steps_pipeline_part_003 participants_def order_simps)

lemma listed_order_pipeline_part_003:
  "\<not> holds in_listed_order (steps (participants 1 passes) pipeline_part_003)"
  by (simp add: steps_pipeline_part_003 participants_def order_simps)

lemma recording_order_statistics_part_005:
  "holds recording_order (steps passes statistics_part_005)"
  by (simp add: steps_statistics_part_005 order_simps)

lemma listed_order_statistics_part_005:
  "holds in_listed_order (steps passes statistics_part_005)"
  by (simp add: steps_statistics_part_005 order_simps)


lemma control_structures_python_ipynb:
  "control_structures python_ipynb = 
     [Loop LiteralSequence ''name in names'',
      Loop LiteralSequence ''name in names'']"
  by (simp add: control_structures_def statements_def python_ipynb_def)

lemma control_structures_python_part_007:
  "control_structures python_part_007 = 
     [Loop LiteralSequence ''name in names'',
      Loop LiteralSequence ''name in names'']"
  by (simp add: control_structures_def statements_def python_part_007_def)

lemma control_structures_preprocessing_part_002:
  "control_structures preprocessing_part_002 = []"
  by (simp add: control_structures_def statements_def preprocessing_part_002_def)

lemma control_structures_preprocessing_part_004:
  "control_structures preprocessing_part_004 = []"
  by (simp add: control_structures_def statements_def preprocessing_part_004_def)

lemma control_structures_epoching_ipynb_first:
  "control_structures epoching_ipynb_first = 
     [Loop LiteralSequence ''eog_name, anode, cathode in zip(eog_names, eog_anodes, eog_cathodes)'',
      Loop LiteralSequence ''trigger in range(1, 81)'',
      Branch ''trigger <= 40'']"
  by (simp add: control_structures_def statements_def epoching_ipynb_first_def)

lemma control_structures_epoching_ipynb_second:
  "control_structures epoching_ipynb_second = []"
  by (simp add: control_structures_def statements_def epoching_ipynb_second_def)

lemma control_structures_averaging_ipynb:
  "control_structures averaging_ipynb = 
     [Loop LiteralSequence ''eog_name, anode, cathode in zip(eog_names, eog_anodes, eog_cathodes)'']"
  by (simp add: control_structures_def statements_def averaging_ipynb_def)

lemma control_structures_averaging_part_000:
  "control_structures averaging_part_000 = []"
  by (simp add: control_structures_def statements_def averaging_part_000_def)

lemma control_structures_pipeline_part_003:
  "control_structures pipeline_part_003 = 
     [Loop InputFiles ''raw_file, log_file in zip(files_dict[raw_files], files_dict[log_files])'']"
  by (simp add: control_structures_def statements_def pipeline_part_003_def)

lemma control_structures_statistics_part_005:
  "control_structures statistics_part_005 = []"
  by (simp add: control_structures_def statements_def statistics_part_005_def)

lemma expected_failures_python_ipynb:
  "expected_failures python_ipynb = [[Simple ''my_var[2] = Hooray!'']]"
  by (simp add: expected_failures_def python_ipynb_def)

lemma expected_failures_python_part_007:
  "expected_failures python_part_007 = [[Simple ''my_var[2] = Hooray!'']]"
  by (simp add: expected_failures_def python_part_007_def)

lemma expected_failures_preprocessing_part_002:
  "expected_failures preprocessing_part_002 = []"
  by (simp add: expected_failures_def preprocessing_part_002_def)

lemma expected_failures_preprocessing_part_004:
  "expected_failures preprocessing_part_004 = []"
  by (simp add: expected_failures_def preprocessing_part_004_def)

lemma expected_failures_epoching_ipynb_first:
  "expected_failures epoching_ipynb_first = []"
  by (simp add: expected_failures_def epoching_ipynb_first_def)

lemma expected_failures_epoching_ipynb_second:
  "expected_failures epoching_ipynb_second = []"
  by (simp add: expected_failures_def epoching_ipynb_second_def)

lemma expected_failures_averaging_ipynb:
  "expected_failures averaging_ipynb = []"
  by (simp add: expected_failures_def averaging_ipynb_def)

lemma expected_failures_averaging_part_000:
  "expected_failures averaging_part_000 = []"
  by (simp add: expected_failures_def averaging_part_000_def)

lemma expected_failures_pipeline_part_003:
  "expected_failures pipeline_part_003 = []"
  by (simp add: expected_failures_def pipeline_part_003_def)

lemma expected_failures_statistics_part_005:
  "expected_failures statistics_part_005 = []"
  by (simp add: expected_failures_def statistics_part_005_def)



text \<open>
  Claim C6 (as stated) fails twice. In the preprocessing chapter the raw signal is
  plotted before the channels are set up and before it is filtered, and again after
  every step, so plotting is not last. In a run of the pipeline chapter over two
  participants the second participant's signal is filtered after the first's ICA,
  re-referencing and epoching.
\<close>

theorem listed_order_counterexample:
  "fails in_listed_order (steps once preprocessing_part_002) \<and>
   fails (precedes Filtering ICA) (steps (participants 2 once) pipeline_part_003) \<and>
   fails (precedes ICA Rereference) (steps (participants 2 once) pipeline_part_003) \<and>
   fails (precedes Rereference Epoching) (steps (participants 2 once) pipeline_part_003)"
  by (simp add: steps_preprocessing_part_002 steps_pipeline_part_003 participants_def
      numeral_2_eq_2 order_simps)

text \<open>
  Claim C6 (amended). For every number of passes of the loops: the steps a notebook
  applies to one recording (the whole run, with one participant in the pipeline
  chapter) follow the order acquire, construct, filter, ICA, re-reference, epoch,
  reject, average, combine, with every filtering call before every ICA call, every
  ICA call before the re-referencing and the re-referencing before every epoching
  call. A run of the pipeline chapter is the acquisition, then the calls of one pass
  of the per-participant loop repeated once per participant, then the grand averages,
  the plots and the packaged pipeline. With the plotting calls counted the listed order
  holds in the Python and statistics chapters only: in the preprocessing, epoching,
  averaging and pipeline chapters a plot comes before a later step.
\<close>

theorem chapters_in_processing_order:
  "list_all (\<lambda>nb. holds recording_order (steps (participants 1 passes) nb)) chapter_notebooks \<and>
   run_notebook passes pipeline_part_003 =
     Some ([''get_erpcore''] @
       concat (replicate (passes participant_loop)
         [''read_raw'', ''set_bipolar_reference'', ''set_bipolar_reference'',
          ''set_channel_types'', ''drop_channels'', ''set_montage'', ''filter'',
          ''filter'', ''ICA'', ''fit'', ''find_bads_eog'', ''apply'',
          ''set_eeg_reference'', ''read_csv'', ''astype'', ''merge_events'',
          ''merge_events'', ''Epochs'', ''drop_bad'', ''average'', ''append'', ''average'',
          ''append'', ''combine_evoked'', ''append'']) @
       [''combine_evoked'', ''combine_evoked'', ''plot_compare_evokeds'',
        ''combine_evoked'', ''plot'', ''plot_joint'', ''group_pipeline'', ''lineplot'',
        ''lineplot'', ''margins'', ''xlim'', ''axvline'', ''axhline'', ''xlabel'',
        ''ylabel'']) \<and>
   map (\<lambda>nb. holds in_listed_order (steps (participants 1 passes) nb)) chapter_notebooks =
     [True, True, False, False, False, False, False, False, False, True]"
  by (simp del: One_nat_def add: chapter_notebooks_def run_pipeline_part_003
      recording_order_python_ipynb recording_order_python_part_007
      recording_order_preprocessing_part_002 recording_order_preprocessing_part_004
      recording_order_epoching_ipynb_first recording_order_epoching_ipynb_second
      recording_order_averaging_ipynb recording_order_averaging_part_000
      recording_order_pipeline_part_003 recording_order_statistics_part_005
      listed_order_python_ipynb listed_order_python_part_007
      listed_order_preprocessing_part_002 listed_order_preprocessing_part_004
      listed_order_epoching_ipynb_first listed_order_epoching_ipynb_second
      listed_order_averaging_ipynb listed_order_averaging_part_000
      listed_order_pipeline_part_003 listed_order_statistics_part_005)

text \<open>
  Claim C7 (as stated) fails: the first notebook of the epoching chapter loops over the
  two EOG channels and builds \<open>event_id\<close> in a loop over the triggers 1 to 80 with an
  \<open>if\<close>/\<open>else\<close> on the trigger number; it has no loop over participants.
\<close>

theorem control_flow_counterexample: "\<not> only_participant_loop epoching_ipynb_first"
  by (simp add: only_participant_loop_def control_structures_epoching_ipynb_first)

text \<open>
  Claim C7 (amended). The control structures of the chapter notebooks are exactly these:
  two \<open>for\<close> loops over the list literal \<open>names\<close> in each notebook of the Python chapter;
  the loop over the zipped EOG channel lists in the first epoching notebook and in
  \<open>4-averaging.ipynb\<close>; the loop over \<open>range(1, 81)\<close> with the branch \<open>trigger <= 40\<close> in the
  first epoching notebook; and the loop over the zipped input file lists in the pipeline
  chapter. The other notebooks are straight-line code; every loop but the last runs
  over a sequence written out in the notebook, and the one branch tests the loop
  variable of such a loop.
\<close>

theorem chapters_control_structures:
  "map control_structures chapter_notebooks =
     [[Loop LiteralSequence ''name in names'', Loop LiteralSequence ''name in names''],
      [Loop LiteralSequence ''name in names'', Loop LiteralSequence ''name in names''],
      [],
      [],
      [Loop LiteralSequence ''eog_name, anode, cathode in zip(eog_names, eog_anodes, eog_cathodes)'',
       Loop LiteralSequence ''trigger in range(1, 81)'',
       Branch ''trigger <= 40''],
      [],
      [Loop LiteralSequence ''eog_name, anode, cathode in zip(eog_names, eog_anodes, eog_cathodes)''],
      [],
      [Loop InputFiles ''raw_file, log_file in zip(files_dict[raw_files], files_dict[log_files])''],
      []]"
  by (simp only: chapter_notebooks_def list.map control_structures_python_ipynb
      control_structures_python_part_007 control_structures_preprocessing_part_002
      control_structures_preprocessing_part_004 control_structures_epoching_ipynb_first
      control_structures_epoching_ipynb_second control_structures_averaging_ipynb
      control_structures_averaging_part_000 control_structures_pipeline_part_003
      control_structures_statistics_part_005)


text \<open>
  Both branches of the \<open>event_id\<close> loop are taken: the triggers 1 to 40 are named as faces,
  the triggers 41 to 80 as cars, and nothing else is named.
\<close>

lemma event_id_loop_lookup:
  "event_id_loop triggers event_id (label, k) =
     (if k \<in> set triggers \<and> label = (if k \<le> 40 then ''face'' else ''car'') then Some k
      else event_id (label, k))"
  by (induction triggers arbitrary: event_id) auto

lemma event_id_cell_lookup:
  "event_id_cell (label, k) =
     (if 1 \<le> k \<and> k \<le> 80 \<and> label = (if k \<le> 40 then ''face'' else ''car'') then Some k
      else None)"
  by (auto simp: event_id_cell_def event_id_loop_lookup)

lemma pipeline_loop_append:
  "pipeline_loop lib pairs acc = (None, acc1) \<Longrightarrow>
   pipeline_loop lib (pairs @ rest) acc = pipeline_loop lib rest acc1"
proof (induction pairs arbitrary: acc)
  case Nil
  then show ?case by simp
next
  case (Cons p pairs)
  obtain raw_file log_file where p: "p = (raw_file, log_file)"
    by (cases p)
  obtain r acc' where body: "loop_body lib raw_file log_file acc = (r, acc')"
    by (cases "loop_body lib raw_file log_file acc")
  show ?case
  proof (cases r)
    case None
    with Cons body p show ?thesis by simp
  next
    case (Some e)
    with Cons.prems body p show ?thesis by simp
  qed
qed

lemma pipeline_loop_raises:
  assumes "pipeline_loop lib pairs acc = (None, acc1)"
    and "loop_body lib raw_file log_file acc1 = (Some e, acc2)"
  shows "pipeline_loop lib (pairs @ (raw_file, log_file) # rest) acc = (Some e, acc2)"
  using pipeline_loop_append [OF assms(1)] assms(2) by simp

lemma tuple_item_assignment:
  "ns name = Some (PyTuple xs) \<Longrightarrow> assign_item name i v ns = (Some TypeError, ns)"
  by (simp add: assign_item_def setitem_def)

lemma tuple_cells:
  "run [assign ''my_var'' (PyTuple [PyInt 1, PyInt 2, PyInt 3]),
        assign_item ''my_var'' 2 (PyStr ''Hooray!'')] ns
     = (Some TypeError, ns(''my_var'' \<mapsto> PyTuple [PyInt 1, PyInt 2, PyInt 3]))"
  by (simp add: assign_def tuple_item_assignment)

lemma list_cells:
  "run [assign ''my_var'' (PyList [PyInt 1, PyInt 2, PyInt 3]),
        assign_item ''my_var'' 2 (PyStr ''Hooray!'')] ns
     = (None, ns(''my_var'' \<mapsto> PyList [PyInt 1, PyInt 2, PyStr ''Hooray!'']))"
  by (simp add: assign_def assign_item_def setitem_def position_def)

lemma no_handlers:
  "list_all (\<lambda>nb. Handler \<notin> set (control_structures nb)) chapter_notebooks"
  by (simp add: chapter_notebooks_def control_structures_python_ipynb
      control_structures_python_part_007 control_structures_preprocessing_part_002
      control_structures_preprocessing_part_004 control_structures_epoching_ipynb_first
      control_structures_epoching_ipynb_second control_structures_averaging_ipynb
      control_structures_averaging_part_000 control_structures_pipeline_part_003
      control_structures_statistics_part_005)

lemma all_expected_failures:
  "concat (map expected_failures chapter_notebooks)
     = [[Simple ''my_var[2] = Hooray!''], [Simple ''my_var[2] = Hooray!'']]"
  by (simp add: chapter_notebooks_def expected_failures_python_ipynb
      expected_failures_python_part_007 expected_failures_preprocessing_part_002
      expected_failures_preprocessing_part_004 expected_failures_epoching_ipynb_first
      expected_failures_epoching_ipynb_second expected_failures_averaging_ipynb
      expected_failures_averaging_part_000 expected_failures_pipeline_part_003
      expected_failures_statistics_part_005)

text \<open>
  Claim C8. An exception raised by a library call of the per-participant loop ends the
  pass at that call and the loop at that pass, and is the loop's outcome as raised:
  nothing is caught, wrapped or tried again, and the lists keep what was appended
  before. No notebook has a \<open>try\<close> statement. The cells tagged \<open>raises-exception\<close> are
  the tuple item assignment of the Python chapter (once in each of its two
  notebooks) and nothing else; that assignment raises \<open>TypeError\<close> and leaves the
  namespace, and with it the tuple, as it was.
\<close>

theorem errors_propagate:
  "(\<forall>(lib :: ('rf, 'lf, 'raw, 'ep) library) raw_file log_file acc e.
      (preprocessing lib raw_file = Inl e \<longrightarrow>
         loop_body lib raw_file log_file acc = (Some e, acc)) \<and>
      (\<forall>raw. preprocessing lib raw_file = Inr raw \<and> epoching lib raw log_file = Inl e \<longrightarrow>
         loop_body lib raw_file log_file acc = (Some e, acc)) \<and>
      (\<forall>raw epochs. preprocessing lib raw_file = Inr raw \<and>
         epoching lib raw log_file = Inr epochs \<and> average lib epochs ''face'' = Inl e \<longrightarrow>
         loop_body lib raw_file log_file acc = (Some e, acc)) \<and>
      (\<forall>raw epochs evoked_face. preprocessing lib raw_file = Inr raw \<and>
         epoching lib raw log_file = Inr epochs \<and>
         average lib epochs ''face'' = Inr evoked_face \<and> average lib epochs ''car'' = Inl e \<longrightarrow>
         loop_body lib raw_file log_file acc
           = (Some e, acc\<lparr>evokeds_face := evokeds_face acc @ [evoked_face]\<rparr>))) \<and>
   (\<forall>(lib :: ('rf, 'lf, 'raw, 'ep) library) pairs raw_file log_file rest acc acc1 acc2 e.
      pipeline_loop lib pairs acc = (None, acc1) \<and>
      loop_body lib raw_file log_file acc1 = (Some e, acc2) \<longrightarrow>
      pipeline_loop lib (pairs @ (raw_file, log_file) # rest) acc = (Some e, acc2)) \<and>
   (\<forall>ns name xs i v. ns name = Some (PyTuple xs) \<longrightarrow>
      assign_item name i v ns = (Some TypeError, ns)) \<and>
   (\<forall>ns. run [assign ''my_var'' (PyTuple [PyInt 1, PyInt 2, PyInt 3]),
              assign_item ''my_var'' 2 (PyStr ''Hooray!'')] ns
          = (Some TypeError, ns(''my_var'' \<mapsto> PyTuple [PyInt 1, PyInt 2, PyInt 3]))) \<and>
   list_all (\<lambda>nb. Handler \<notin> set (control_structures nb)) chapter_notebooks \<and>
   concat (map expected_failures chapter_notebooks)
     = [[Simple ''my_var[2] = Hooray!''], [Simple ''my_var[2] = Hooray!'']]"
proof (intro conjI allI impI)
  fix lib :: "('rf, 'lf, 'raw, 'ep) library" and raw_file log_file acc e
  show "loop_body lib raw_file log_file acc = (Some e, acc)"
    if "preprocessing lib raw_file = Inl e"
    using that by (simp add: loop_body_def)
  show "loop_body lib raw_file log_file acc = (Some e, acc)"
    if "preprocessing lib raw_file = Inr raw \<and> epoching lib raw log_file = Inl e" for raw
    using that by (simp add: loop_body_def)
  show "loop_body lib raw_file log_file acc = (Some e, acc)"
    if "preprocessing lib raw_file = Inr raw \<and> epoching lib raw log_file = Inr epochs \<and>
        average lib epochs ''face'' = Inl e" for raw epochs
    using that by (simp add: loop_body_def)
  show "loop_body lib raw_file log_file acc
          = (Some e, acc\<lparr>evokeds_face := evokeds_face acc @ [evoked_face]\<rparr>)"
    if "preprocessing lib raw_file = Inr raw \<and> epoching lib raw log_file = Inr epochs \<and>
        average lib epochs ''face'' = Inr evoked_face \<and> average lib epochs ''car'' = Inl e"
    for raw epochs evoked_face
    using that by (simp add: loop_body_def)
next
  fix lib :: "('rf, 'lf, 'raw, 'ep) library" and pairs raw_file log_file rest acc acc1 acc2 e
  assume "pipeline_loop lib pairs acc = (None, acc1) \<and>
      loop_body lib raw_file log_file acc1 = (Some e, acc2)"
  then show "pipeline_loop lib (pairs @ (raw_file, log_file) # rest) acc = (Some e, acc2)"
    by (simp add: pipeline_loop_raises)
next
  fix ns :: namespace and name xs i v
  assume "ns name = Some (PyTuple xs)"
  then show "assign_item name i v ns = (Some TypeError, ns)"
    by (rule tuple_item_assignment)
next
  fix ns :: namespace
  show "run [assign ''my_var'' (PyTuple [PyInt 1, PyInt 2, PyInt 3]),
              assign_item ''my_var'' 2 (PyStr ''Hooray!'')] ns
          = (Some TypeError, ns(''my_var'' \<mapsto> PyTuple [PyInt 1, PyInt 2, PyInt 3]))"
    by (rule tuple_cells)
next
  show "list_all (\<lambda>nb. Handler \<notin> set (control_structures nb)) chapter_notebooks"
    by (rule no_handlers)
next
  show "concat (map expected_failures chapter_notebooks)
     = [[Simple ''my_var[2] = Hooray!''], [Simple ''my_var[2] = Hooray!'']]"
    by (rule all_expected_failures)
qed


theorem errors_propagate_witness:
  "custom_pipeline
     \<lparr>preprocessing = (\<lambda>raw_file. if raw_file = 2 then Inl (LibraryError ''unreadable'')
                                  else Inr (raw_file + 1)),
      epoching = (\<lambda>raw log_file. Inr (raw + log_file)),
      average = (\<lambda>epochs condition.
                   Inr [[real epochs, if condition = ''face'' then 5 else 2]])\<rparr>
     [1, 2, 3 :: nat] [10, 20, 30 :: nat]
     = (Some (LibraryError ''unreadable''),
        \<lparr>evokeds_face = [[[12, 5]]], evokeds_car = [[[12, 2]]], evokeds_diff = [[[0, 3]]]\<rparr>) \<and>
   assign_item ''my_var'' 2 (PyStr ''Hooray!'') [''my_var'' \<mapsto> PyTuple [PyInt 1, PyInt 2, PyInt 3]]
     = (Some TypeError, [''my_var'' \<mapsto> PyTuple [PyInt 1, PyInt 2, PyInt 3]])"
proof -
  let ?lib = "\<lparr>preprocessing = (\<lambda>raw_file :: nat. if raw_file = 2
                     then Inl (LibraryError ''unreadable'') else Inr (raw_file + 1) :: error + nat),
      epoching = (\<lambda>raw log_file :: nat. Inr (raw + log_file) :: error + nat),
      average = (\<lambda>epochs condition.
                   Inr [[real epochs, if condition = ''face'' then 5 else 2]] :: error + matrix)\<rparr>"
  let ?acc1 = "\<lparr>evokeds_face = [[[12, 5]]], evokeds_car = [[[12, 2]]], evokeds_diff = [[[0, 3]]]\<rparr>"
  note body = errors_propagate [THEN conjunct1, rule_format, THEN conjunct1, rule_format]
  note loop = errors_propagate [THEN conjunct2, THEN conjunct1, rule_format]
  note tuple = errors_propagate [THEN conjunct2, THEN conjunct2, THEN conjunct1, rule_format]
  have first: "pipeline_loop ?lib [(1, 10)] no_evokeds = (None, ?acc1)"
    by (simp add: loop_body_def combine_evoked_def resolve_weights_def same_shape_def
        no_evokeds_def scale_def madd_def)
  have second: "loop_body ?lib 2 20 ?acc1 = (Some (LibraryError ''unreadable''), ?acc1)"
    by (rule body) simp
  have "pipeline_loop ?lib ([(1, 10)] @ (2, 20) # [(3, 30)]) no_evokeds
          = (Some (LibraryError ''unreadable''), ?acc1)"
    using first second by (intro loop) simp
  then have run: "custom_pipeline ?lib [1, 2, 3] [10, 20, 30]
          = (Some (LibraryError ''unreadable''), ?acc1)"
    by (simp add: custom_pipeline_def)
  have "assign_item ''my_var'' 2 (PyStr ''Hooray!'') [''my_var'' \<mapsto> PyTuple [PyInt 1, PyInt 2, PyInt 3]]
     = (Some TypeError, [''my_var'' \<mapsto> PyTuple [PyInt 1, PyInt 2, PyInt 3]])"
    by (rule tuple) simp
  with run show ?thesis by simp
qed

end
